theory Spec2Isabelle
  imports Complex_Main "HOL-Library.List_Lexorder" "HOL-Library.Char_ord"
begin

section \<open>Data model\<close>

text \<open>
  The script \<^verbatim>\<open>Datacleanup-practice-advance.py\<close> is a straight-line program over one
  table. A table is a list of named columns, in column order; a column is a typed
  sequence, as the table library has it: an object column holds strings or the missing
  marker, a float column holds numbers or the missing marker, an integer column holds
  integers. The missing marker (\<^verbatim>\<open>np.nan\<close>) is \<open>None\<close>.

  Floating-point numbers are modelled as exact reals: rounding is outside the model.
  Row labels (the index) are not modelled: rows are identified by position, which is how
  every statement of the script uses them.
\<close>

datatype series =
    Obj "string option list"
  | F64 "real option list"
  | I64 "int list"

type_synonym frame = "(string \<times> series) list"

datatype error = KeyError | TypeError | ValueError | IndexError | NameError

text \<open>A Python float: \<open>None\<close> is NaN.\<close>

type_synonym pyfloat = "real option"

datatype cell = S "string option" | F pyfloat | I int

fun slen :: "series \<Rightarrow> nat" where
  "slen (Obj xs) = length xs"
| "slen (F64 xs) = length xs"
| "slen (I64 xs) = length xs"

fun cells :: "series \<Rightarrow> cell list" where
  "cells (Obj xs) = map S xs"
| "cells (F64 xs) = map F xs"
| "cells (I64 xs) = map I xs"

text \<open>\<^verbatim>\<open>len(df)\<close>: the number of rows.\<close>

definition nrows :: "frame \<Rightarrow> nat" where
  "nrows f = (case f of [] \<Rightarrow> 0 | (n, c) # _ \<Rightarrow> slen c)"

text \<open>The rows of a table, each row the list of its cells in column order.\<close>

definition rows :: "frame \<Rightarrow> cell list list" where
  "rows f = map (\<lambda>i. map (\<lambda>(n, c). cells c ! i) f) [0..<nrows f]"

definition columns :: "frame \<Rightarrow> string list" where
  "columns f = map fst f"

text \<open>Sequencing of fallible steps: the first error is the result.\<close>

definition ebind :: "error + 'a \<Rightarrow> ('a \<Rightarrow> error + 'b) \<Rightarrow> error + 'b" where
  "ebind m k = (case m of Inl e \<Rightarrow> Inl e | Inr x \<Rightarrow> k x)"

text \<open>\<^verbatim>\<open>df[name]\<close>: a missing column raises KeyError.\<close>

definition getitem :: "frame \<Rightarrow> string \<Rightarrow> error + series" where
  "getitem f name = (case map_of f name of None \<Rightarrow> Inl KeyError | Some c \<Rightarrow> Inr c)"

text \<open>
  \<^verbatim>\<open>df[name] = values\<close>: replaces the column in place, or appends a new column at the
  end; values of the wrong length raise ValueError.
\<close>

definition setitem :: "frame \<Rightarrow> string \<Rightarrow> series \<Rightarrow> error + frame" where
  "setitem f name c =
     (if f \<noteq> [] \<and> slen c \<noteq> nrows f then Inl ValueError
      else if name \<in> set (columns f)
        then Inr (map (\<lambda>(n, s). if n = name then (n, c) else (n, s)) f)
        else Inr (f @ [(name, c)]))"

section \<open>Operations of the table library used by the script\<close>

subsection \<open>Selecting and appending rows\<close>

text \<open>\<^verbatim>\<open>df.iloc[[i, j, ...]]\<close>: the rows at the given positions; a position out of range raises.\<close>

definition take_rows :: "nat list \<Rightarrow> 'a list \<Rightarrow> 'a list" where
  "take_rows idx xs = map (\<lambda>i. xs ! i) idx"

fun take_series :: "nat list \<Rightarrow> series \<Rightarrow> series" where
  "take_series idx (Obj xs) = Obj (take_rows idx xs)"
| "take_series idx (F64 xs) = F64 (take_rows idx xs)"
| "take_series idx (I64 xs) = I64 (take_rows idx xs)"

definition iloc :: "frame \<Rightarrow> nat list \<Rightarrow> error + frame" where
  "iloc f idx =
     (if list_all (\<lambda>i. i < nrows f) idx
      then Inr (map (\<lambda>(n, c). (n, take_series idx c)) f)
      else Inl IndexError)"

text \<open>
  \<^verbatim>\<open>pd.concat([a, b], ignore_index=True)\<close> for two tables with the same columns of the
  same types, which is the only use the script makes of it. The library aligns
  differing columns and widens differing types; that part is not modelled and is
  reported as an error here.
\<close>

fun append_series :: "series \<Rightarrow> series \<Rightarrow> error + series" where
  "append_series (Obj xs) (Obj ys) = Inr (Obj (xs @ ys))"
| "append_series (F64 xs) (F64 ys) = Inr (F64 (xs @ ys))"
| "append_series (I64 xs) (I64 ys) = Inr (I64 (xs @ ys))"
| "append_series _ _ = Inl TypeError"

fun concat_frames :: "frame \<Rightarrow> frame \<Rightarrow> error + frame" where
  "concat_frames [] [] = Inr []"
| "concat_frames ((n, c) # f) ((m, d) # g) =
     (if n \<noteq> m then Inl ValueError
      else ebind (append_series c d) (\<lambda>cd.
           ebind (concat_frames f g) (\<lambda>fg. Inr ((n, cd) # fg))))"
| "concat_frames _ _ = Inl ValueError"

subsection \<open>Type normalisation\<close>

text \<open>
  \<^verbatim>\<open>Series.replace(old, new)\<close> with two strings: a cell equal to \<open>old\<close> as a whole
  becomes \<open>new\<close>; a numeric column holds no string and is returned as it is.
\<close>

fun replace :: "series \<Rightarrow> string \<Rightarrow> string \<Rightarrow> series" where
  "replace (Obj xs) old new = Obj (map (\<lambda>c. if c = Some old then Some new else c) xs)"
| "replace (F64 xs) old new = F64 xs"
| "replace (I64 xs) old new = I64 xs"

text \<open>
  The value of one token: a number spelled as an integer, or a number spelled with a
  fractional part. The conversion of a token is the library's; in the model it is a
  parameter \<open>parse\<close>, which answers \<open>None\<close> for a token it rejects.
\<close>

datatype pynum = PyInt int | PyFloat real

type_synonym parser = "string \<Rightarrow> pynum option"

fun float_of :: "pynum \<Rightarrow> real" where
  "float_of (PyInt i) = real_of_int i"
| "float_of (PyFloat x) = x"

fun is_int_cell :: "pynum option \<Rightarrow> bool" where
  "is_int_cell (Some (PyInt i)) = True"
| "is_int_cell _ = False"

fun int_of_cell :: "pynum option \<Rightarrow> int" where
  "int_of_cell (Some (PyInt i)) = i"
| "int_of_cell _ = 0"

text \<open>The cells of a text column, each parsed on its own; a missing cell stays missing.\<close>

definition parse_cells :: "parser \<Rightarrow> string option list \<Rightarrow> pynum option list" where
  "parse_cells parse xs = map (\<lambda>c. case c of None \<Rightarrow> None | Some tok \<Rightarrow> parse tok) xs"

text \<open>
  \<^verbatim>\<open>pd.to_numeric(s, errors='coerce')\<close>. With \<^verbatim>\<open>errors='coerce'\<close> a rejected token
  becomes the missing marker and a missing cell stays missing. The result is an integer
  column when every cell is a token spelled as an integer; as soon as one cell is
  missing, rejected or spelled with a fractional part it is a float column. A column
  that is numeric already is returned as it is. Integers beyond 64 bits are not
  modelled.
\<close>

fun to_numeric :: "parser \<Rightarrow> series \<Rightarrow> series" where
  "to_numeric parse (Obj xs) =
     (let vs = parse_cells parse xs
      in if list_all is_int_cell vs then I64 (map int_of_cell vs)
         else F64 (map (map_option float_of) vs))"
| "to_numeric parse (F64 xs) = F64 xs"
| "to_numeric parse (I64 xs) = I64 xs"

text \<open>The position of the first occurrence of a value in a list.\<close>

fun index_of :: "'a \<Rightarrow> 'a list \<Rightarrow> nat option" where
  "index_of x [] = None"
| "index_of x (y # ys) = (if x = y then Some 0 else map_option Suc (index_of x ys))"

text \<open>
  A parser for plain decimal tokens: an optional sign, digits, and an optional
  fractional part; a token without a point is an integer. These are the tokens of the
  script's data; the library's parser accepts further spellings (exponents, surrounding
  blanks, infinities), none of which occurs there.
\<close>

definition digit_val :: "char \<Rightarrow> nat option" where
  "digit_val c = index_of c ''0123456789''"

fun digits_val :: "nat \<Rightarrow> string \<Rightarrow> nat option" where
  "digits_val acc [] = Some acc"
| "digits_val acc (c # cs) =
     (case digit_val c of None \<Rightarrow> None | Some d \<Rightarrow> digits_val (10 * acc + d) cs)"

definition unsigned_decimal :: "string \<Rightarrow> pynum option" where
  "unsigned_decimal s =
     (let ip = takeWhile (\<lambda>c. c \<noteq> CHR ''.'') s;
          rest = dropWhile (\<lambda>c. c \<noteq> CHR ''.'') s
      in case rest of
           [] \<Rightarrow>
             (if ip = [] then None
              else map_option (\<lambda>a. PyInt (int a)) (digits_val 0 ip))
         | _ # fp \<Rightarrow>
             (if ip = [] \<and> fp = [] then None
              else case (digits_val 0 ip, digits_val 0 fp) of
                     (Some a, Some b) \<Rightarrow> Some (PyFloat (real a + real b / 10 ^ length fp))
                   | _ \<Rightarrow> None))"

fun negate :: "pynum \<Rightarrow> pynum" where
  "negate (PyInt i) = PyInt (- i)"
| "negate (PyFloat x) = PyFloat (- x)"

definition parse_decimal :: parser where
  "parse_decimal s =
     (case s of
        [] \<Rightarrow> None
      | c # cs \<Rightarrow>
          if c = CHR ''-'' then map_option negate (unsigned_decimal cs)
          else if c = CHR ''+'' then unsigned_decimal cs
          else unsigned_decimal s)"

subsection \<open>Duplicate rows\<close>

text \<open>
  \<^verbatim>\<open>df.duplicated()\<close>: the mask that is true at a row equal to an earlier row. Rows are
  compared cell by cell, and the missing marker equals itself in this comparison.
  \<open>seen\<close> holds the rows met so far.
\<close>

fun duplicated_from :: "'a list \<Rightarrow> 'a list \<Rightarrow> bool list" where
  "duplicated_from seen [] = []"
| "duplicated_from seen (r # rs) =
     (if r \<in> set seen then True # duplicated_from seen rs
      else False # duplicated_from (r # seen) rs)"

definition duplicated :: "'a list \<Rightarrow> bool list" where
  "duplicated rs = duplicated_from [] rs"

text \<open>Boolean selection: the entries whose mask bit is true.\<close>

definition select :: "bool list \<Rightarrow> 'a list \<Rightarrow> 'a list" where
  "select bs xs = map snd (filter fst (zip bs xs))"

fun select_series :: "bool list \<Rightarrow> series \<Rightarrow> series" where
  "select_series bs (Obj xs) = Obj (select bs xs)"
| "select_series bs (F64 xs) = F64 (select bs xs)"
| "select_series bs (I64 xs) = I64 (select bs xs)"

text \<open>\<^verbatim>\<open>df.drop_duplicates()\<close>: a new table with the rows that are not duplicated.\<close>

definition drop_duplicates :: "frame \<Rightarrow> frame" where
  "drop_duplicates f =
     (let keep = map Not (duplicated (rows f))
      in map (\<lambda>(n, c). (n, select_series keep c)) f)"

subsection \<open>Missing values\<close>

text \<open>The values that are present, in row order (\<^verbatim>\<open>dropna\<close>).\<close>

definition dropna :: "'a option list \<Rightarrow> 'a list" where
  "dropna xs = concat (map (\<lambda>c. case c of None \<Rightarrow> [] | Some v \<Rightarrow> [v]) xs)"

text \<open>\<^verbatim>\<open>Series.isnull().sum()\<close>: the number of missing cells.\<close>

fun isnull_sum :: "series \<Rightarrow> nat" where
  "isnull_sum (Obj xs) = length (filter (\<lambda>c. c = None) xs)"
| "isnull_sum (F64 xs) = length (filter (\<lambda>c. c = None) xs)"
| "isnull_sum (I64 xs) = 0"

text \<open>
  \<^verbatim>\<open>Series.mean()\<close>: the mean of the values that are present, NaN when there is none;
  a column of strings has no mean.
\<close>

definition mean_present :: "real list \<Rightarrow> pyfloat" where
  "mean_present vs = (if vs = [] then None else Some (sum_list vs / real (length vs)))"

fun mean :: "series \<Rightarrow> error + pyfloat" where
  "mean (F64 xs) = Inr (mean_present (dropna xs))"
| "mean (I64 xs) = Inr (mean_present (map real_of_int xs))"
| "mean (Obj xs) = Inl TypeError"

text \<open>
  The distinct values in order of first appearance (\<^verbatim>\<open>unique\<close>); \<open>seen\<close> holds the
  values met so far.
\<close>

fun unique_from :: "'a list \<Rightarrow> 'a list \<Rightarrow> 'a list" where
  "unique_from seen [] = []"
| "unique_from seen (x # xs) =
     (if x \<in> set seen then unique_from seen xs else x # unique_from (x # seen) xs)"

definition unique :: "'a list \<Rightarrow> 'a list" where
  "unique xs = unique_from [] xs"

text \<open>
  \<^verbatim>\<open>Series.mode()\<close> on present values: the values whose count is the largest count,
  returned in ascending order.
\<close>

definition max_count :: "'a list \<Rightarrow> nat" where
  "max_count vs = fold max (map (count_list vs) (unique vs)) 0"

definition modes :: "('a::linorder) list \<Rightarrow> 'a list" where
  "modes vs = sort (filter (\<lambda>v. count_list vs v = max_count vs) (unique vs))"

text \<open>
  \<^verbatim>\<open>Series.mode()[0]\<close>, as the script reads the mode of a text column: the first entry
  of the result; an empty result (no value present) raises KeyError.
\<close>

definition mode0 :: "string option list \<Rightarrow> error + string" where
  "mode0 xs = (case modes (dropna xs) of [] \<Rightarrow> Inl KeyError | m # _ \<Rightarrow> Inr m)"

text \<open>
  \<^verbatim>\<open>Series.fillna(value)\<close>: every missing cell becomes the value; filling with NaN
  leaves the column as it is.
\<close>

definition fill :: "'a \<Rightarrow> 'a option list \<Rightarrow> 'a option list" where
  "fill v xs = map (\<lambda>c. case c of None \<Rightarrow> Some v | Some x \<Rightarrow> Some x) xs"

fun fillna_float :: "series \<Rightarrow> pyfloat \<Rightarrow> error + series" where
  "fillna_float (F64 xs) None = Inr (F64 xs)"
| "fillna_float (F64 xs) (Some v) = Inr (F64 (fill v xs))"
| "fillna_float (I64 xs) v = Inr (I64 xs)"
| "fillna_float (Obj xs) v = Inl TypeError"

fun fillna_str :: "series \<Rightarrow> string \<Rightarrow> error + series" where
  "fillna_str (Obj xs) v = Inr (Obj (fill v xs))"
| "fillna_str (F64 xs) v = Inl TypeError"
| "fillna_str (I64 xs) v = Inr (I64 xs)"

subsection \<open>Column pruning\<close>

text \<open>\<^verbatim>\<open>Series.nunique()\<close>: the number of distinct values that are present.\<close>

fun nunique :: "series \<Rightarrow> nat" where
  "nunique (Obj xs) = length (unique (dropna xs))"
| "nunique (F64 xs) = length (unique (dropna xs))"
| "nunique (I64 xs) = length (unique xs)"

text \<open>\<^verbatim>\<open>df.drop(columns=names)\<close>: a name that is not a column raises KeyError.\<close>

definition drop_columns :: "frame \<Rightarrow> string list \<Rightarrow> error + frame" where
  "drop_columns f names =
     (if list_all (\<lambda>n. n \<in> set (columns f)) names
      then Inr (filter (\<lambda>(n, c). n \<notin> set names) f)
      else Inl KeyError)"

subsection \<open>Quantiles and capping\<close>

text \<open>
  \<^verbatim>\<open>Series.quantile(q)\<close> with the default linear interpolation: over the sorted present
  values \<open>v\<close> of length \<open>n\<close>, the position is \<open>q * (n - 1)\<close>, and the result lies
  between the entries on either side of the position, in proportion to its fractional
  part. No value present gives NaN.
\<close>

definition quantile_sorted :: "real list \<Rightarrow> real \<Rightarrow> real" where
  "quantile_sorted v q =
     (let n = length v;
          pos = q * real (n - 1);
          lo = nat \<lfloor>pos\<rfloor>;
          hi = min (lo + 1) (n - 1);
          frac = pos - real lo
      in v ! lo + (v ! hi - v ! lo) * frac)"

definition quantile_present :: "real list \<Rightarrow> real \<Rightarrow> pyfloat" where
  "quantile_present vs q = (if vs = [] then None else Some (quantile_sorted (sort vs) q))"

fun quantile :: "series \<Rightarrow> real \<Rightarrow> error + pyfloat" where
  "quantile (F64 xs) q = Inr (quantile_present (dropna xs) q)"
| "quantile (I64 xs) q = Inr (quantile_present (map real_of_int xs) q)"
| "quantile (Obj xs) q = Inl TypeError"

text \<open>Float arithmetic and comparison: NaN propagates, and every comparison with NaN is false.\<close>

definition fsub :: "pyfloat \<Rightarrow> pyfloat \<Rightarrow> pyfloat" where
  "fsub a b = (case (a, b) of (Some x, Some y) \<Rightarrow> Some (x - y) | _ \<Rightarrow> None)"

definition fadd :: "pyfloat \<Rightarrow> pyfloat \<Rightarrow> pyfloat" where
  "fadd a b = (case (a, b) of (Some x, Some y) \<Rightarrow> Some (x + y) | _ \<Rightarrow> None)"

definition fmul :: "pyfloat \<Rightarrow> pyfloat \<Rightarrow> pyfloat" where
  "fmul a b = (case (a, b) of (Some x, Some y) \<Rightarrow> Some (x * y) | _ \<Rightarrow> None)"

definition flt :: "pyfloat \<Rightarrow> pyfloat \<Rightarrow> bool" where
  "flt a b = (case (a, b) of (Some x, Some y) \<Rightarrow> x < y | _ \<Rightarrow> False)"

text \<open>
  The capping function of lines 295 and 331:
  \<^verbatim>\<open>lambda x: lower if x < lower else (upper if x > upper else x)\<close>.
\<close>

definition cap :: "pyfloat \<Rightarrow> pyfloat \<Rightarrow> pyfloat \<Rightarrow> pyfloat" where
  "cap lower upper x = (if flt x lower then lower else if flt upper x then upper else x)"

text \<open>\<^verbatim>\<open>Series.apply(f)\<close> for a function on floats.\<close>

fun apply_float :: "(pyfloat \<Rightarrow> pyfloat) \<Rightarrow> series \<Rightarrow> error + series" where
  "apply_float g (F64 xs) = Inr (F64 (map g xs))"
| "apply_float g (I64 xs) = Inr (F64 (map (\<lambda>i. g (Some (real_of_int i))) xs))"
| "apply_float g (Obj xs) = Inl TypeError"

text \<open>
  The limits of the 1.5 IQR rule as the script computes them from a column (lines
  255 to 274 and 310 to 314): \<open>(lower, upper)\<close>.
\<close>

definition iqr_limits :: "series \<Rightarrow> error + (pyfloat \<times> pyfloat)" where
  "iqr_limits c =
     ebind (quantile c 0.25) (\<lambda>Q1.
     ebind (quantile c 0.75) (\<lambda>Q3.
       let IQR = fsub Q3 Q1
       in Inr (fsub Q1 (fmul (Some 1.5) IQR), fadd Q3 (fmul (Some 1.5) IQR))))"

text \<open>One capping pass over a column: the limits from its current values, then the clamp.\<close>

definition cap_outliers :: "series \<Rightarrow> error + series" where
  "cap_outliers c =
     ebind (iqr_limits c) (\<lambda>(lower, upper). apply_float (cap lower upper) c)"

subsection \<open>Categorical encoders\<close>

text \<open>
  \<^verbatim>\<open>pd.get_dummies(s, prefix=p, drop_first=True, dtype=int)\<close> on a text column: the
  categories are the distinct present values in ascending order; the first is dropped
  and each of the others gives one 0/1 column named \<open>p_category\<close>.
\<close>

definition categories :: "string option list \<Rightarrow> string list" where
  "categories xs = sort (unique (dropna xs))"

fun get_dummies :: "series \<Rightarrow> string \<Rightarrow> error + frame" where
  "get_dummies (Obj xs) prefix =
     Inr (map (\<lambda>c. (prefix @ ''_'' @ c, I64 (map (\<lambda>v. if v = Some c then 1 else 0) xs)))
            (drop 1 (categories xs)))"
| "get_dummies (F64 xs) prefix = Inl TypeError"
| "get_dummies (I64 xs) prefix = Inl TypeError"

text \<open>
  \<^verbatim>\<open>OrdinalEncoder(categories=[cats]).fit_transform(df[[name]])\<close>: every cell is mapped
  to the position of its value in \<open>cats\<close>, as a float; a value that is not in \<open>cats\<close>,
  the missing marker included, raises ValueError, and so does a column with no row.
\<close>

fun ordinal_codes :: "string list \<Rightarrow> string option list \<Rightarrow> error + pyfloat list" where
  "ordinal_codes cats [] = Inr []"
| "ordinal_codes cats (c # cs) =
     (case c of
        None \<Rightarrow> Inl ValueError
      | Some v \<Rightarrow>
          (case index_of v cats of
             None \<Rightarrow> Inl ValueError
           | Some k \<Rightarrow> ebind (ordinal_codes cats cs) (\<lambda>r. Inr (Some (real k) # r))))"

fun ordinal_encode :: "string list \<Rightarrow> series \<Rightarrow> error + series" where
  "ordinal_encode cats (Obj xs) =
     (if xs = [] then Inl ValueError
      else ebind (ordinal_codes cats xs) (\<lambda>r. Inr (F64 r)))"
| "ordinal_encode cats (F64 xs) = Inl ValueError"
| "ordinal_encode cats (I64 xs) = Inl ValueError"

text \<open>
  \<^verbatim>\<open>LabelEncoder().fit_transform(s)\<close> on a text column: the classes are the distinct
  present values in ascending order, followed by the missing marker when it occurs; a
  cell is mapped to the position of its value among the classes.
\<close>

definition classes :: "string option list \<Rightarrow> string option list" where
  "classes xs =
     map Some (sort (unique (dropna xs))) @ (if None \<in> set xs then [None] else [])"

fun label_encode :: "series \<Rightarrow> error + series" where
  "label_encode (Obj xs) =
     Inr (I64 (map (\<lambda>c. case index_of c (classes xs) of None \<Rightarrow> 0 | Some k \<Rightarrow> int k) xs))"
| "label_encode (F64 xs) = Inl TypeError"
| "label_encode (I64 xs) = Inl TypeError"

section \<open>The script\<close>

text \<open>
  The script's variables and the objects they refer to. A table variable holds a
  reference into \<open>heap\<close>; two variables holding the same reference are aliases, and a
  column assignment through either changes the one object. A variable that is not yet
  assigned is \<open>None\<close>. Console output is not modelled, and expressions evaluated only to
  be printed are left out.
\<close>

record env =
  heap :: "frame list"
  df :: "nat option"
  df_clean :: "nat option"
  city_encoded :: "nat option"
  age_mean :: "pyfloat option"
  city_mode :: "string option"
  purchase_mean :: "pyfloat option"
  size_mode :: "string option"
  lower_limit :: "pyfloat option"
  upper_limit :: "pyfloat option"
  lower_limit_age :: "pyfloat option"
  upper_limit_age :: "pyfloat option"

definition empty_env :: env where
  "empty_env = \<lparr>heap = [], df = None, df_clean = None, city_encoded = None,
     age_mean = None, city_mode = None, purchase_mean = None, size_mode = None,
     lower_limit = None, upper_limit = None, lower_limit_age = None,
     upper_limit_age = None\<rparr>"

text \<open>Reading a table variable: the reference and the object it refers to.\<close>

definition load :: "env \<Rightarrow> nat option \<Rightarrow> error + (nat \<times> frame)" where
  "load e v =
     (case v of
        None \<Rightarrow> Inl NameError
      | Some r \<Rightarrow> if r < length (heap e) then Inr (r, heap e ! r) else Inl NameError)"

text \<open>A new object: its reference, and the environment holding it.\<close>

definition alloc :: "env \<Rightarrow> frame \<Rightarrow> nat \<times> env" where
  "alloc e f = (length (heap e), e\<lparr>heap := heap e @ [f]\<rparr>)"

text \<open>\<^verbatim>\<open>obj[name] = values\<close> on the object at reference \<open>r\<close>: the object itself changes.\<close>

definition store_column :: "env \<Rightarrow> nat \<Rightarrow> string \<Rightarrow> series \<Rightarrow> error + env" where
  "store_column e r name c =
     (if r < length (heap e)
      then ebind (setitem (heap e ! r) name c) (\<lambda>f. Inr (e\<lparr>heap := (heap e)[r := f]\<rparr>))
      else Inl NameError)"

text \<open>The object a variable refers to.\<close>

definition deref :: "env \<Rightarrow> nat option \<Rightarrow> error + frame" where
  "deref e v = ebind (load e v) (\<lambda>(r, f). Inr f)"

subsection \<open>The data (lines 13 to 55)\<close>

definition data :: frame where
  "data =
   [(''customer_id'', I64 [101, 102, 103, 104, 105, 106, 107, 108, 109, 110,
                           111, 112, 113, 114, 115, 116, 117, 118, 119, 120]),
    (''name'', Obj [Some ''John'', Some ''Sarah'', Some ''Mike'', Some ''Emma'', Some ''John'',
                    Some ''Sarah'', Some ''Mike'', Some ''David'', Some ''Lisa'', Some ''Tom'',
                    Some ''Jerry'', Some ''Kate'', Some ''Bob'', Some ''Alice'',
                    Some ''Charlie'', Some ''Diana'', Some ''Eve'', Some ''Frank'',
                    Some ''Grace'', Some ''Henry'']),
    (''age'', Obj [Some ''25'', Some ''30'', Some ''twenty-eight'', Some ''35'', Some ''25'',
                   Some ''30'', Some ''twenty-eight'', Some ''40'', Some ''22'', Some ''150'',
                   Some ''28'', Some ''33'', None, Some ''29'', Some ''31'', Some ''27'',
                   Some ''26'', None, Some ''32'', Some ''24'']),
    (''city'', Obj [Some ''Bangalore'', Some ''Chennai'', Some ''Hyderabad'', Some ''Delhi'',
                    Some ''Bangalore'', Some ''Chennai'', Some ''Hyderabad'', Some ''Mumbai'',
                    Some ''Pune'', Some ''Bangalore'', Some ''Chennai'', Some ''Hyderabad'',
                    Some ''Delhi'', None, Some ''Mumbai'', Some ''Bangalore'', None,
                    Some ''Chennai'', Some ''Pune'', Some ''Delhi'']),
    (''purchase_amount'', F64 [Some 1200.50, Some 800.30, None, Some 1500.00, Some 1200.50,
                               Some 800.30, None, Some 2200.00, Some 950.00, Some 50000.00,
                               Some 1100.00, None, Some 1300.00, Some 1450.00, Some 1800.00,
                               Some 1250.00, None, Some 980.00, Some 1150.00, Some 45000.00]),
    (''country'', Obj [Some ''India'', Some ''India'', Some ''India'', Some ''India'',
                       Some ''India'', Some ''India'', Some ''India'', Some ''India'',
                       Some ''India'', Some ''India'', Some ''India'', Some ''India'',
                       Some ''India'', Some ''India'', Some ''India'', Some ''India'',
                       Some ''India'', Some ''India'', Some ''India'', Some ''India'']),
    (''pan_card'', Obj [Some ''ABCDE1234F'', Some ''FGHIJ5678K'', Some ''KLMNO9012P'',
                        Some ''QRSTU3456V'', Some ''WXYZA7890B'', Some ''CDEFG2345H'',
                        Some ''IJKLM6789N'', Some ''OPQRS0123T'', Some ''UVWXY4567Z'',
                        Some ''ABCDF8901E'', Some ''GHIJK2345L'', Some ''MNOPQ6789R'',
                        Some ''STUVW0123X'', Some ''YZABC4567D'', Some ''DEFGH8901J'',
                        Some ''IJKLM2345P'', Some ''NOPQR6789V'', Some ''STUVW0123B'',
                        Some ''XYZAB4567H'', Some ''CDEFG8901N'']),
    (''product_category'', Obj [Some ''Electronics'', Some ''Clothing'', Some ''Electronics'',
                                Some ''Furniture'', Some ''Electronics'', Some ''Clothing'',
                                Some ''Electronics'', Some ''Furniture'', Some ''Clothing'',
                                Some ''Electronics'', Some ''Clothing'', Some ''Furniture'',
                                Some ''Electronics'', Some ''Clothing'', Some ''Furniture'',
                                Some ''Electronics'', Some ''Clothing'', Some ''Electronics'',
                                Some ''Furniture'', Some ''Electronics'']),
    (''shirt_size'', Obj [Some ''Small'', Some ''Medium'', None, Some ''Large'', Some ''Small'',
                          Some ''Medium'', None, Some ''XL'', Some ''Small'', Some ''Medium'',
                          Some ''Large'', Some ''XL'', Some ''Small'', None, Some ''Large'',
                          Some ''Medium'', Some ''Small'', Some ''XL'', Some ''Medium'',
                          Some ''Large'']),
    (''grade'', Obj [Some ''A'', Some ''B'', Some ''A'', Some ''C'', Some ''B'', Some ''A'',
                     Some ''B'', Some ''A'', Some ''C'', Some ''B'', Some ''A'', Some ''C'',
                     Some ''B'', Some ''A'', Some ''C'', Some ''B'', Some ''A'', Some ''B'',
                     Some ''C'', Some ''A''])]"

text \<open>
  Lines 52 to 55: \<^verbatim>\<open>df = pd.DataFrame(data)\<close>, then
  \<^verbatim>\<open>df = pd.concat([df, df.iloc[[4, 5, 6]]], ignore_index=True)\<close>.
\<close>

definition construct :: "env \<Rightarrow> error + env" where
  "construct e0 =
     (let (r, e1) = alloc e0 data;
          e2 = e1\<lparr>df := Some r\<rparr>
      in ebind (deref e2 (df e2)) (\<lambda>f.
         ebind (iloc f [4, 5, 6]) (\<lambda>dups.
         ebind (concat_frames f dups) (\<lambda>g.
           let (r', e3) = alloc e2 g
           in Inr (e3\<lparr>df := Some r'\<rparr>)))))"

subsection \<open>Problem 1: wrong data types (lines 122 to 125)\<close>

text \<open>
  \<^verbatim>\<open>df_clean = df.copy()\<close> makes a new object with the same contents; the two column
  assignments that follow change the object \<open>df_clean\<close> refers to.
\<close>

definition problem1 :: "parser \<Rightarrow> env \<Rightarrow> error + env" where
  "problem1 parse e0 =
     ebind (deref e0 (df e0)) (\<lambda>f.
       let (r, e1) = alloc e0 f;
           e2 = e1\<lparr>df_clean := Some r\<rparr>
       in ebind (deref e2 (df_clean e2)) (\<lambda>f2.
          ebind (getitem f2 ''age'') (\<lambda>age.
          ebind (store_column e2 r ''age'' (replace age ''twenty-eight'' ''28'')) (\<lambda>e3.
          ebind (deref e3 (df_clean e3)) (\<lambda>f3.
          ebind (getitem f3 ''age'') (\<lambda>age'.
            store_column e3 r ''age'' (to_numeric parse age')))))))"

subsection \<open>Problem 2: duplicate records (line 148)\<close>

definition problem2 :: "env \<Rightarrow> error + env" where
  "problem2 e0 =
     ebind (deref e0 (df_clean e0)) (\<lambda>f.
       let (r, e1) = alloc e0 (drop_duplicates f)
       in Inr (e1\<lparr>df_clean := Some r\<rparr>))"

subsection \<open>Problem 3: missing values (lines 177 to 203)\<close>

definition problem3 :: "env \<Rightarrow> error + env" where
  "problem3 e0 =
     ebind (load e0 (df_clean e0)) (\<lambda>(r, f0).
     ebind (getitem f0 ''age'') (\<lambda>age.
     ebind (mean age) (\<lambda>am.
     ebind (fillna_float age am) (\<lambda>age'.
     ebind (store_column (e0\<lparr>age_mean := Some am\<rparr>) r ''age'' age') (\<lambda>e1.
     ebind (deref e1 (df_clean e1)) (\<lambda>f1.
     ebind (getitem f1 ''city'') (\<lambda>city.
     ebind (case city of Obj xs \<Rightarrow> mode0 xs | _ \<Rightarrow> Inl TypeError) (\<lambda>cm.
     ebind (fillna_str city cm) (\<lambda>city'.
     ebind (store_column (e1\<lparr>city_mode := Some cm\<rparr>) r ''city'' city') (\<lambda>e2.
     ebind (deref e2 (df_clean e2)) (\<lambda>f2.
     ebind (getitem f2 ''purchase_amount'') (\<lambda>pa.
     ebind (mean pa) (\<lambda>pm.
     ebind (fillna_float pa pm) (\<lambda>pa'.
     ebind (store_column (e2\<lparr>purchase_mean := Some pm\<rparr>) r ''purchase_amount'' pa') (\<lambda>e3.
     ebind (deref e3 (df_clean e3)) (\<lambda>f3.
     ebind (getitem f3 ''shirt_size'') (\<lambda>sz.
     ebind (case sz of Obj xs \<Rightarrow> mode0 xs | _ \<Rightarrow> Inl TypeError) (\<lambda>sm.
     ebind (fillna_str sz sm) (\<lambda>sz'.
       store_column (e3\<lparr>size_mode := Some sm\<rparr>) r ''shirt_size'' sz')))))))))))))))))))"

subsection \<open>Problem 4: unimportant columns (lines 239 to 240)\<close>

definition columns_to_drop :: "string list" where
  "columns_to_drop = [''country'', ''pan_card'']"

definition problem4 :: "env \<Rightarrow> error + env" where
  "problem4 e0 =
     ebind (deref e0 (df_clean e0)) (\<lambda>f.
     ebind (drop_columns f columns_to_drop) (\<lambda>g.
       let (r, e1) = alloc e0 g
       in Inr (e1\<lparr>df_clean := Some r\<rparr>)))"

subsection \<open>Problem 5: outliers of the purchase amount (lines 255 to 296)\<close>

definition problem5 :: "env \<Rightarrow> error + env" where
  "problem5 e0 =
     ebind (load e0 (df_clean e0)) (\<lambda>(r, f).
     ebind (getitem f ''purchase_amount'') (\<lambda>pa.
     ebind (iqr_limits pa) (\<lambda>(lower, upper).
     ebind (apply_float (cap lower upper) pa) (\<lambda>pa'.
       store_column (e0\<lparr>lower_limit := Some lower, upper_limit := Some upper\<rparr>)
         r ''purchase_amount'' pa'))))"

subsection \<open>Problem 6: outliers of the age (lines 310 to 332)\<close>

definition problem6 :: "env \<Rightarrow> error + env" where
  "problem6 e0 =
     ebind (load e0 (df_clean e0)) (\<lambda>(r, f).
     ebind (getitem f ''age'') (\<lambda>age.
     ebind (iqr_limits age) (\<lambda>(lower, upper).
     ebind (apply_float (cap lower upper) age) (\<lambda>age'.
       store_column (e0\<lparr>lower_limit_age := Some lower, upper_limit_age := Some upper\<rparr>)
         r ''age'' age'))))"

subsection \<open>Bonus: encodings (lines 361 to 385)\<close>

definition bonus :: "env \<Rightarrow> error + env" where
  "bonus e0 =
     ebind (load e0 (df_clean e0)) (\<lambda>(r, f0).
     ebind (getitem f0 ''city'') (\<lambda>city.
     ebind (get_dummies city ''city'') (\<lambda>d.
       let (rd, e1) = alloc e0 d;
           e2 = e1\<lparr>city_encoded := Some rd\<rparr>
       in ebind (getitem f0 ''shirt_size'') (\<lambda>sz.
          ebind (ordinal_encode [''Small'', ''Medium'', ''Large'', ''XL''] sz) (\<lambda>se.
          ebind (store_column e2 r ''size_encoded'' se) (\<lambda>e3.
          ebind (deref e3 (df_clean e3)) (\<lambda>f3.
          ebind (getitem f3 ''grade'') (\<lambda>gr.
          ebind (ordinal_encode [''C'', ''B'', ''A''] gr) (\<lambda>ge.
          ebind (store_column e3 r ''grade_encoded'' ge) (\<lambda>e4.
          ebind (deref e4 (df_clean e4)) (\<lambda>f4.
          ebind (getitem f4 ''product_category'') (\<lambda>pc.
          ebind (label_encode pc) (\<lambda>ce.
            store_column e4 r ''category_encoded'' ce)))))))))))))"

subsection \<open>The whole script\<close>

text \<open>
  The stages in the order of the script, after the table is built; a stage that raises
  ends the run.
\<close>

definition cleaning_stages :: "parser \<Rightarrow> (env \<Rightarrow> error + env) list" where
  "cleaning_stages parse = [problem1 parse, problem2, problem3, problem4, problem5, problem6]"

definition stages :: "parser \<Rightarrow> (env \<Rightarrow> error + env) list" where
  "stages parse = cleaning_stages parse @ [bonus]"

fun run_stages :: "(env \<Rightarrow> error + env) list \<Rightarrow> env \<Rightarrow> error + env" where
  "run_stages [] e = Inr e"
| "run_stages (st # sts) e = ebind (st e) (run_stages sts)"

text \<open>The state of the script after its first \<open>k\<close> stages.\<close>

definition script_upto :: "parser \<Rightarrow> nat \<Rightarrow> error + env" where
  "script_upto parse k = ebind (construct empty_env) (run_stages (take k (stages parse)))"

definition script :: "parser \<Rightarrow> error + env" where
  "script parse = ebind (construct empty_env) (run_stages (stages parse))"

text \<open>The working table \<open>df_clean\<close> and the original table \<open>df\<close> after the first \<open>k\<close> stages.\<close>

definition working_table :: "parser \<Rightarrow> nat \<Rightarrow> error + frame" where
  "working_table parse k = ebind (script_upto parse k) (\<lambda>e. deref e (df_clean e))"

definition original_table :: "parser \<Rightarrow> nat \<Rightarrow> error + frame" where
  "original_table parse k = ebind (script_upto parse k) (\<lambda>e. deref e (df e))"

text \<open>A table is well formed when all its columns have the same length.\<close>

definition wf_frame :: "frame \<Rightarrow> bool" where
  "wf_frame f = list_all (\<lambda>(n, c). slen c = nrows f) f"

text \<open>The cells of a column that was read as a float column, or as a text column.\<close>

fun floats_of :: "error + series \<Rightarrow> pyfloat list" where
  "floats_of (Inr (F64 xs)) = xs"
| "floats_of _ = []"

fun strings_of :: "error + series \<Rightarrow> string option list" where
  "strings_of (Inr (Obj xs)) = xs"
| "strings_of _ = []"

text \<open>A column is numeric when it is a float or an integer column.\<close>

fun is_numeric :: "series \<Rightarrow> bool" where
  "is_numeric (Obj xs) = False"
| "is_numeric (F64 xs) = True"
| "is_numeric (I64 xs) = True"

text \<open>
  What Problem 3 expects of the working table: it is well formed, the four columns it
  treats are there with the types the stage reads them at, and each has a present value.
\<close>

definition ready_for_imputation ::
  "frame \<Rightarrow> pyfloat list \<Rightarrow> string option list \<Rightarrow> pyfloat list \<Rightarrow> string option list \<Rightarrow> bool"
where
  "ready_for_imputation f a c p s =
     (wf_frame f
      \<and> getitem f ''age'' = Inr (F64 a) \<and> getitem f ''city'' = Inr (Obj c)
      \<and> getitem f ''purchase_amount'' = Inr (F64 p) \<and> getitem f ''shirt_size'' = Inr (Obj s)
      \<and> dropna a \<noteq> [] \<and> dropna c \<noteq> [] \<and> dropna p \<noteq> [] \<and> dropna s \<noteq> [])"

section \<open>Statements of the specification\<close>

text \<open>
  The mode as the specification words it: the most frequent present value, and among
  several of the largest count the one met first in row order. It is here to be compared
  with \<open>mode0\<close>, which is what the script calls.
\<close>

definition first_encountered_mode :: "string option list \<Rightarrow> error + string" where
  "first_encountered_mode xs =
     (let vs = dropna xs
      in case filter (\<lambda>v. count_list vs v = max_count vs) (unique vs) of
           [] \<Rightarrow> Inl KeyError
         | m # _ \<Rightarrow> Inr m)"

text \<open>
  The pruning rule as the specification words it: a column is worth keeping when the
  number of its distinct values lies strictly between 1 and the number of rows.
\<close>

definition keeps_rule :: "frame \<Rightarrow> series \<Rightarrow> bool" where
  "keeps_rule f c = (1 < nunique c \<and> nunique c < nrows f)"



text \<open>
  The limits of the 1.5 IQR rule as the specification words them, over the present
  values of a column: Q1 and Q3 are the quantiles at 0.25 and 0.75, the lower limit is
  Q1 - 1.5 (Q3 - Q1) and the upper limit is Q3 + 1.5 (Q3 - Q1).
\<close>

definition lower_of :: "real list \<Rightarrow> real" where
  "lower_of vs =
     (let Q1 = quantile_sorted (sort vs) 0.25; Q3 = quantile_sorted (sort vs) 0.75
      in Q1 - 1.5 * (Q3 - Q1))"

definition upper_of :: "real list \<Rightarrow> real" where
  "upper_of vs =
     (let Q1 = quantile_sorted (sort vs) 0.25; Q3 = quantile_sorted (sort vs) 0.75
      in Q3 + 1.5 * (Q3 - Q1))"

text \<open>A cell lies within the limits when it is missing or its value is between them.\<close>

definition in_range :: "real \<Rightarrow> real \<Rightarrow> pyfloat \<Rightarrow> bool" where
  "in_range lo hi x = (case x of None \<Rightarrow> True | Some y \<Rightarrow> lo \<le> y \<and> y \<le> hi)"

text \<open>
  What the capping stages expect of the working table: it is well formed, and the
  purchase-amount and age columns are float columns with a present value each.
\<close>

definition ready_for_capping :: "frame \<Rightarrow> pyfloat list \<Rightarrow> pyfloat list \<Rightarrow> bool" where
  "ready_for_capping f p a =
     (wf_frame f
      \<and> getitem f ''purchase_amount'' = Inr (F64 p) \<and> getitem f ''age'' = Inr (F64 a)
      \<and> dropna p \<noteq> [] \<and> dropna a \<noteq> [])"

section \<open>The tables of the run\<close>

text \<open>
  The tables that the script computes from its data, written out. They are values, not
  part of the program: the lemmas of the section on the run prove that the script
  computes exactly these.
\<close>

text \<open>The table \<open>df\<close> after line 55: the 20 rows of \<open>data\<close> followed by copies of the rows at positions 4, 5 and 6.\<close>

definition df_built :: frame where
  "df_built =
    [(''customer_id'', I64 [101, 102, 103, 104, 105, 106, 107, 108, 109, 110, 111, 112, 113,
    114, 115, 116, 117, 118, 119, 120, 105, 106, 107]), (''name'', Obj [Some ''John'', Some
    ''Sarah'', Some ''Mike'', Some ''Emma'', Some ''John'', Some ''Sarah'', Some ''Mike'', Some
    ''David'', Some ''Lisa'', Some ''Tom'', Some ''Jerry'', Some ''Kate'', Some ''Bob'', Some
    ''Alice'', Some ''Charlie'', Some ''Diana'', Some ''Eve'', Some ''Frank'', Some ''Grace'',
    Some ''Henry'', Some ''John'', Some ''Sarah'', Some ''Mike'']), (''age'', Obj [Some ''25'',
    Some ''30'', Some ''twenty-eight'', Some ''35'', Some ''25'', Some ''30'', Some
    ''twenty-eight'', Some ''40'', Some ''22'', Some ''150'', Some ''28'', Some ''33'', None,
    Some ''29'', Some ''31'', Some ''27'', Some ''26'', None, Some ''32'', Some ''24'', Some
    ''25'', Some ''30'', Some ''twenty-eight'']), (''city'', Obj [Some ''Bangalore'', Some
    ''Chennai'', Some ''Hyderabad'', Some ''Delhi'', Some ''Bangalore'', Some ''Chennai'', Some
    ''Hyderabad'', Some ''Mumbai'', Some ''Pune'', Some ''Bangalore'', Some ''Chennai'', Some
    ''Hyderabad'', Some ''Delhi'', None, Some ''Mumbai'', Some ''Bangalore'', None, Some
    ''Chennai'', Some ''Pune'', Some ''Delhi'', Some ''Bangalore'', Some ''Chennai'', Some
    ''Hyderabad'']), (''purchase_amount'', F64 [Some 1200.5, Some 800.3, None, Some 1500, Some
    1200.5, Some 800.3, None, Some 2200, Some 950, Some 50000, Some 1100, None, Some 1300, Some
    1450, Some 1800, Some 1250, None, Some 980, Some 1150, Some 45000, Some 1200.5, Some 800.3,
    None]), (''country'', Obj [Some ''India'', Some ''India'', Some ''India'', Some ''India'',
    Some ''India'', Some ''India'', Some ''India'', Some ''India'', Some ''India'', Some
    ''India'', Some ''India'', Some ''India'', Some ''India'', Some ''India'', Some ''India'',
    Some ''India'', Some ''India'', Some ''India'', Some ''India'', Some ''India'', Some
    ''India'', Some ''India'', Some ''India'']), (''pan_card'', Obj [Some ''ABCDE1234F'', Some
    ''FGHIJ5678K'', Some ''KLMNO9012P'', Some ''QRSTU3456V'', Some ''WXYZA7890B'', Some
    ''CDEFG2345H'', Some ''IJKLM6789N'', Some ''OPQRS0123T'', Some ''UVWXY4567Z'', Some
    ''ABCDF8901E'', Some ''GHIJK2345L'', Some ''MNOPQ6789R'', Some ''STUVW0123X'', Some
    ''YZABC4567D'', Some ''DEFGH8901J'', Some ''IJKLM2345P'', Some ''NOPQR6789V'', Some
    ''STUVW0123B'', Some ''XYZAB4567H'', Some ''CDEFG8901N'', Some ''WXYZA7890B'', Some
    ''CDEFG2345H'', Some ''IJKLM6789N'']), (''product_category'', Obj [Some ''Electronics'',
    Some ''Clothing'', Some ''Electronics'', Some ''Furniture'', Some ''Electronics'', Some
    ''Clothing'', Some ''Electronics'', Some ''Furniture'', Some ''Clothing'', Some
    ''Electronics'', Some ''Clothing'', Some ''Furniture'', Some ''Electronics'', Some
    ''Clothing'', Some ''Furniture'', Some ''Electronics'', Some ''Clothing'', Some
    ''Electronics'', Some ''Furniture'', Some ''Electronics'', Some ''Electronics'', Some
    ''Clothing'', Some ''Electronics'']), (''shirt_size'', Obj [Some ''Small'', Some ''Medium'',
    None, Some ''Large'', Some ''Small'', Some ''Medium'', None, Some ''XL'', Some ''Small'',
    Some ''Medium'', Some ''Large'', Some ''XL'', Some ''Small'', None, Some ''Large'', Some
    ''Medium'', Some ''Small'', Some ''XL'', Some ''Medium'', Some ''Large'', Some ''Small'',
    Some ''Medium'', None]), (''grade'', Obj [Some ''A'', Some ''B'', Some ''A'', Some ''C'',
    Some ''B'', Some ''A'', Some ''B'', Some ''A'', Some ''C'', Some ''B'', Some ''A'', Some
    ''C'', Some ''B'', Some ''A'', Some ''C'', Some ''B'', Some ''A'', Some ''B'', Some ''C'',
    Some ''A'', Some ''B'', Some ''A'', Some ''B''])]"

text \<open>The working table after Problem 1: the age column is numeric.\<close>

definition table_typed :: frame where
  "table_typed =
    [(''customer_id'', I64 [101, 102, 103, 104, 105, 106, 107, 108, 109, 110, 111, 112, 113,
    114, 115, 116, 117, 118, 119, 120, 105, 106, 107]), (''name'', Obj [Some ''John'', Some
    ''Sarah'', Some ''Mike'', Some ''Emma'', Some ''John'', Some ''Sarah'', Some ''Mike'', Some
    ''David'', Some ''Lisa'', Some ''Tom'', Some ''Jerry'', Some ''Kate'', Some ''Bob'', Some
    ''Alice'', Some ''Charlie'', Some ''Diana'', Some ''Eve'', Some ''Frank'', Some ''Grace'',
    Some ''Henry'', Some ''John'', Some ''Sarah'', Some ''Mike'']), (''age'', F64 [Some 25, Some
    30, Some 28, Some 35, Some 25, Some 30, Some 28, Some 40, Some 22, Some 150, Some 28, Some
    33, None, Some 29, Some 31, Some 27, Some 26, None, Some 32, Some 24, Some 25, Some 30, Some
    28]), (''city'', Obj [Some ''Bangalore'', Some ''Chennai'', Some ''Hyderabad'', Some
    ''Delhi'', Some ''Bangalore'', Some ''Chennai'', Some ''Hyderabad'', Some ''Mumbai'', Some
    ''Pune'', Some ''Bangalore'', Some ''Chennai'', Some ''Hyderabad'', Some ''Delhi'', None,
    Some ''Mumbai'', Some ''Bangalore'', None, Some ''Chennai'', Some ''Pune'', Some ''Delhi'',
    Some ''Bangalore'', Some ''Chennai'', Some ''Hyderabad'']), (''purchase_amount'', F64 [Some
    1200.5, Some 800.3, None, Some 1500, Some 1200.5, Some 800.3, None, Some 2200, Some 950,
    Some 50000, Some 1100, None, Some 1300, Some 1450, Some 1800, Some 1250, None, Some 980,
    Some 1150, Some 45000, Some 1200.5, Some 800.3, None]), (''country'', Obj [Some ''India'',
    Some ''India'', Some ''India'', Some ''India'', Some ''India'', Some ''India'', Some
    ''India'', Some ''India'', Some ''India'', Some ''India'', Some ''India'', Some ''India'',
    Some ''India'', Some ''India'', Some ''India'', Some ''India'', Some ''India'', Some
    ''India'', Some ''India'', Some ''India'', Some ''India'', Some ''India'', Some ''India'']),
    (''pan_card'', Obj [Some ''ABCDE1234F'', Some ''FGHIJ5678K'', Some ''KLMNO9012P'', Some
    ''QRSTU3456V'', Some ''WXYZA7890B'', Some ''CDEFG2345H'', Some ''IJKLM6789N'', Some
    ''OPQRS0123T'', Some ''UVWXY4567Z'', Some ''ABCDF8901E'', Some ''GHIJK2345L'', Some
    ''MNOPQ6789R'', Some ''STUVW0123X'', Some ''YZABC4567D'', Some ''DEFGH8901J'', Some
    ''IJKLM2345P'', Some ''NOPQR6789V'', Some ''STUVW0123B'', Some ''XYZAB4567H'', Some
    ''CDEFG8901N'', Some ''WXYZA7890B'', Some ''CDEFG2345H'', Some ''IJKLM6789N'']),
    (''product_category'', Obj [Some ''Electronics'', Some ''Clothing'', Some ''Electronics'',
    Some ''Furniture'', Some ''Electronics'', Some ''Clothing'', Some ''Electronics'', Some
    ''Furniture'', Some ''Clothing'', Some ''Electronics'', Some ''Clothing'', Some
    ''Furniture'', Some ''Electronics'', Some ''Clothing'', Some ''Furniture'', Some
    ''Electronics'', Some ''Clothing'', Some ''Electronics'', Some ''Furniture'', Some
    ''Electronics'', Some ''Electronics'', Some ''Clothing'', Some ''Electronics'']),
    (''shirt_size'', Obj [Some ''Small'', Some ''Medium'', None, Some ''Large'', Some ''Small'',
    Some ''Medium'', None, Some ''XL'', Some ''Small'', Some ''Medium'', Some ''Large'', Some
    ''XL'', Some ''Small'', None, Some ''Large'', Some ''Medium'', Some ''Small'', Some ''XL'',
    Some ''Medium'', Some ''Large'', Some ''Small'', Some ''Medium'', None]), (''grade'', Obj
    [Some ''A'', Some ''B'', Some ''A'', Some ''C'', Some ''B'', Some ''A'', Some ''B'', Some
    ''A'', Some ''C'', Some ''B'', Some ''A'', Some ''C'', Some ''B'', Some ''A'', Some ''C'',
    Some ''B'', Some ''A'', Some ''B'', Some ''C'', Some ''A'', Some ''B'', Some ''A'', Some
    ''B''])]"

text \<open>The working table after Problem 2: the three repeated rows are gone.\<close>

definition table_dedup :: frame where
  "table_dedup =
    [(''customer_id'', I64 [101, 102, 103, 104, 105, 106, 107, 108, 109, 110, 111, 112, 113,
    114, 115, 116, 117, 118, 119, 120]), (''name'', Obj [Some ''John'', Some ''Sarah'', Some
    ''Mike'', Some ''Emma'', Some ''John'', Some ''Sarah'', Some ''Mike'', Some ''David'', Some
    ''Lisa'', Some ''Tom'', Some ''Jerry'', Some ''Kate'', Some ''Bob'', Some ''Alice'', Some
    ''Charlie'', Some ''Diana'', Some ''Eve'', Some ''Frank'', Some ''Grace'', Some ''Henry'']),
    (''age'', F64 [Some 25, Some 30, Some 28, Some 35, Some 25, Some 30, Some 28, Some 40, Some
    22, Some 150, Some 28, Some 33, None, Some 29, Some 31, Some 27, Some 26, None, Some 32,
    Some 24]), (''city'', Obj [Some ''Bangalore'', Some ''Chennai'', Some ''Hyderabad'', Some
    ''Delhi'', Some ''Bangalore'', Some ''Chennai'', Some ''Hyderabad'', Some ''Mumbai'', Some
    ''Pune'', Some ''Bangalore'', Some ''Chennai'', Some ''Hyderabad'', Some ''Delhi'', None,
    Some ''Mumbai'', Some ''Bangalore'', None, Some ''Chennai'', Some ''Pune'', Some
    ''Delhi'']), (''purchase_amount'', F64 [Some 1200.5, Some 800.3, None, Some 1500, Some
    1200.5, Some 800.3, None, Some 2200, Some 950, Some 50000, Some 1100, None, Some 1300, Some
    1450, Some 1800, Some 1250, None, Some 980, Some 1150, Some 45000]), (''country'', Obj [Some
    ''India'', Some ''India'', Some ''India'', Some ''India'', Some ''India'', Some ''India'',
    Some ''India'', Some ''India'', Some ''India'', Some ''India'', Some ''India'', Some
    ''India'', Some ''India'', Some ''India'', Some ''India'', Some ''India'', Some ''India'',
    Some ''India'', Some ''India'', Some ''India'']), (''pan_card'', Obj [Some ''ABCDE1234F'',
    Some ''FGHIJ5678K'', Some ''KLMNO9012P'', Some ''QRSTU3456V'', Some ''WXYZA7890B'', Some
    ''CDEFG2345H'', Some ''IJKLM6789N'', Some ''OPQRS0123T'', Some ''UVWXY4567Z'', Some
    ''ABCDF8901E'', Some ''GHIJK2345L'', Some ''MNOPQ6789R'', Some ''STUVW0123X'', Some
    ''YZABC4567D'', Some ''DEFGH8901J'', Some ''IJKLM2345P'', Some ''NOPQR6789V'', Some
    ''STUVW0123B'', Some ''XYZAB4567H'', Some ''CDEFG8901N'']), (''product_category'', Obj [Some
    ''Electronics'', Some ''Clothing'', Some ''Electronics'', Some ''Furniture'', Some
    ''Electronics'', Some ''Clothing'', Some ''Electronics'', Some ''Furniture'', Some
    ''Clothing'', Some ''Electronics'', Some ''Clothing'', Some ''Furniture'', Some
    ''Electronics'', Some ''Clothing'', Some ''Furniture'', Some ''Electronics'', Some
    ''Clothing'', Some ''Electronics'', Some ''Furniture'', Some ''Electronics'']),
    (''shirt_size'', Obj [Some ''Small'', Some ''Medium'', None, Some ''Large'', Some ''Small'',
    Some ''Medium'', None, Some ''XL'', Some ''Small'', Some ''Medium'', Some ''Large'', Some
    ''XL'', Some ''Small'', None, Some ''Large'', Some ''Medium'', Some ''Small'', Some ''XL'',
    Some ''Medium'', Some ''Large'']), (''grade'', Obj [Some ''A'', Some ''B'', Some ''A'', Some
    ''C'', Some ''B'', Some ''A'', Some ''B'', Some ''A'', Some ''C'', Some ''B'', Some ''A'',
    Some ''C'', Some ''B'', Some ''A'', Some ''C'', Some ''B'', Some ''A'', Some ''B'', Some
    ''C'', Some ''A''])]"

text \<open>The working table after Problem 3: the missing cells of four columns are filled.\<close>

definition table_imputed :: frame where
  "table_imputed =
    [(''customer_id'', I64 [101, 102, 103, 104, 105, 106, 107, 108, 109, 110, 111, 112, 113,
    114, 115, 116, 117, 118, 119, 120]), (''name'', Obj [Some ''John'', Some ''Sarah'', Some
    ''Mike'', Some ''Emma'', Some ''John'', Some ''Sarah'', Some ''Mike'', Some ''David'', Some
    ''Lisa'', Some ''Tom'', Some ''Jerry'', Some ''Kate'', Some ''Bob'', Some ''Alice'', Some
    ''Charlie'', Some ''Diana'', Some ''Eve'', Some ''Frank'', Some ''Grace'', Some ''Henry'']),
    (''age'', F64 [Some 25, Some 30, Some 28, Some 35, Some 25, Some 30, Some 28, Some 40, Some
    22, Some 150, Some 28, Some 33, Some (643 / 18), Some 29, Some 31, Some 27, Some 26, Some
    (643 / 18), Some 32, Some 24]), (''city'', Obj [Some ''Bangalore'', Some ''Chennai'', Some
    ''Hyderabad'', Some ''Delhi'', Some ''Bangalore'', Some ''Chennai'', Some ''Hyderabad'',
    Some ''Mumbai'', Some ''Pune'', Some ''Bangalore'', Some ''Chennai'', Some ''Hyderabad'',
    Some ''Delhi'', Some ''Bangalore'', Some ''Mumbai'', Some ''Bangalore'', Some ''Bangalore'',
    Some ''Chennai'', Some ''Pune'', Some ''Delhi'']), (''purchase_amount'', F64 [Some 1200.5,
    Some 800.3, Some 7042.6, Some 1500, Some 1200.5, Some 800.3, Some 7042.6, Some 2200, Some
    950, Some 50000, Some 1100, Some 7042.6, Some 1300, Some 1450, Some 1800, Some 1250, Some
    7042.6, Some 980, Some 1150, Some 45000]), (''country'', Obj [Some ''India'', Some
    ''India'', Some ''India'', Some ''India'', Some ''India'', Some ''India'', Some ''India'',
    Some ''India'', Some ''India'', Some ''India'', Some ''India'', Some ''India'', Some
    ''India'', Some ''India'', Some ''India'', Some ''India'', Some ''India'', Some ''India'',
    Some ''India'', Some ''India'']), (''pan_card'', Obj [Some ''ABCDE1234F'', Some
    ''FGHIJ5678K'', Some ''KLMNO9012P'', Some ''QRSTU3456V'', Some ''WXYZA7890B'', Some
    ''CDEFG2345H'', Some ''IJKLM6789N'', Some ''OPQRS0123T'', Some ''UVWXY4567Z'', Some
    ''ABCDF8901E'', Some ''GHIJK2345L'', Some ''MNOPQ6789R'', Some ''STUVW0123X'', Some
    ''YZABC4567D'', Some ''DEFGH8901J'', Some ''IJKLM2345P'', Some ''NOPQR6789V'', Some
    ''STUVW0123B'', Some ''XYZAB4567H'', Some ''CDEFG8901N'']), (''product_category'', Obj [Some
    ''Electronics'', Some ''Clothing'', Some ''Electronics'', Some ''Furniture'', Some
    ''Electronics'', Some ''Clothing'', Some ''Electronics'', Some ''Furniture'', Some
    ''Clothing'', Some ''Electronics'', Some ''Clothing'', Some ''Furniture'', Some
    ''Electronics'', Some ''Clothing'', Some ''Furniture'', Some ''Electronics'', Some
    ''Clothing'', Some ''Electronics'', Some ''Furniture'', Some ''Electronics'']),
    (''shirt_size'', Obj [Some ''Small'', Some ''Medium'', Some ''Medium'', Some ''Large'', Some
    ''Small'', Some ''Medium'', Some ''Medium'', Some ''XL'', Some ''Small'', Some ''Medium'',
    Some ''Large'', Some ''XL'', Some ''Small'', Some ''Medium'', Some ''Large'', Some
    ''Medium'', Some ''Small'', Some ''XL'', Some ''Medium'', Some ''Large'']), (''grade'', Obj
    [Some ''A'', Some ''B'', Some ''A'', Some ''C'', Some ''B'', Some ''A'', Some ''B'', Some
    ''A'', Some ''C'', Some ''B'', Some ''A'', Some ''C'', Some ''B'', Some ''A'', Some ''C'',
    Some ''B'', Some ''A'', Some ''B'', Some ''C'', Some ''A''])]"

text \<open>The working table after Problem 4: two columns are gone.\<close>

definition table_pruned :: frame where
  "table_pruned =
    [(''customer_id'', I64 [101, 102, 103, 104, 105, 106, 107, 108, 109, 110, 111, 112, 113,
    114, 115, 116, 117, 118, 119, 120]), (''name'', Obj [Some ''John'', Some ''Sarah'', Some
    ''Mike'', Some ''Emma'', Some ''John'', Some ''Sarah'', Some ''Mike'', Some ''David'', Some
    ''Lisa'', Some ''Tom'', Some ''Jerry'', Some ''Kate'', Some ''Bob'', Some ''Alice'', Some
    ''Charlie'', Some ''Diana'', Some ''Eve'', Some ''Frank'', Some ''Grace'', Some ''Henry'']),
    (''age'', F64 [Some 25, Some 30, Some 28, Some 35, Some 25, Some 30, Some 28, Some 40, Some
    22, Some 150, Some 28, Some 33, Some (643 / 18), Some 29, Some 31, Some 27, Some 26, Some
    (643 / 18), Some 32, Some 24]), (''city'', Obj [Some ''Bangalore'', Some ''Chennai'', Some
    ''Hyderabad'', Some ''Delhi'', Some ''Bangalore'', Some ''Chennai'', Some ''Hyderabad'',
    Some ''Mumbai'', Some ''Pune'', Some ''Bangalore'', Some ''Chennai'', Some ''Hyderabad'',
    Some ''Delhi'', Some ''Bangalore'', Some ''Mumbai'', Some ''Bangalore'', Some ''Bangalore'',
    Some ''Chennai'', Some ''Pune'', Some ''Delhi'']), (''purchase_amount'', F64 [Some 1200.5,
    Some 800.3, Some 7042.6, Some 1500, Some 1200.5, Some 800.3, Some 7042.6, Some 2200, Some
    950, Some 50000, Some 1100, Some 7042.6, Some 1300, Some 1450, Some 1800, Some 1250, Some
    7042.6, Some 980, Some 1150, Some 45000]), (''product_category'', Obj [Some ''Electronics'',
    Some ''Clothing'', Some ''Electronics'', Some ''Furniture'', Some ''Electronics'', Some
    ''Clothing'', Some ''Electronics'', Some ''Furniture'', Some ''Clothing'', Some
    ''Electronics'', Some ''Clothing'', Some ''Furniture'', Some ''Electronics'', Some
    ''Clothing'', Some ''Furniture'', Some ''Electronics'', Some ''Clothing'', Some
    ''Electronics'', Some ''Furniture'', Some ''Electronics'']), (''shirt_size'', Obj [Some
    ''Small'', Some ''Medium'', Some ''Medium'', Some ''Large'', Some ''Small'', Some
    ''Medium'', Some ''Medium'', Some ''XL'', Some ''Small'', Some ''Medium'', Some ''Large'',
    Some ''XL'', Some ''Small'', Some ''Medium'', Some ''Large'', Some ''Medium'', Some
    ''Small'', Some ''XL'', Some ''Medium'', Some ''Large'']), (''grade'', Obj [Some ''A'', Some
    ''B'', Some ''A'', Some ''C'', Some ''B'', Some ''A'', Some ''B'', Some ''A'', Some ''C'',
    Some ''B'', Some ''A'', Some ''C'', Some ''B'', Some ''A'', Some ''C'', Some ''B'', Some
    ''A'', Some ''B'', Some ''C'', Some ''A''])]"

text \<open>The working table after Problem 5: the purchase amounts are capped.\<close>

definition table_capped_purchase :: frame where
  "table_capped_purchase =
    [(''customer_id'', I64 [101, 102, 103, 104, 105, 106, 107, 108, 109, 110, 111, 112, 113,
    114, 115, 116, 117, 118, 119, 120]), (''name'', Obj [Some ''John'', Some ''Sarah'', Some
    ''Mike'', Some ''Emma'', Some ''John'', Some ''Sarah'', Some ''Mike'', Some ''David'', Some
    ''Lisa'', Some ''Tom'', Some ''Jerry'', Some ''Kate'', Some ''Bob'', Some ''Alice'', Some
    ''Charlie'', Some ''Diana'', Some ''Eve'', Some ''Frank'', Some ''Grace'', Some ''Henry'']),
    (''age'', F64 [Some 25, Some 30, Some 28, Some 35, Some 25, Some 30, Some 28, Some 40, Some
    22, Some 150, Some 28, Some 33, Some (643 / 18), Some 29, Some 31, Some 27, Some 26, Some
    (643 / 18), Some 32, Some 24]), (''city'', Obj [Some ''Bangalore'', Some ''Chennai'', Some
    ''Hyderabad'', Some ''Delhi'', Some ''Bangalore'', Some ''Chennai'', Some ''Hyderabad'',
    Some ''Mumbai'', Some ''Pune'', Some ''Bangalore'', Some ''Chennai'', Some ''Hyderabad'',
    Some ''Delhi'', Some ''Bangalore'', Some ''Mumbai'', Some ''Bangalore'', Some ''Bangalore'',
    Some ''Chennai'', Some ''Pune'', Some ''Delhi'']), (''purchase_amount'', F64 [Some 1200.5,
    Some 800.3, Some 7042.6, Some 1500, Some 1200.5, Some 800.3, Some 7042.6, Some 2200, Some
    950, Some 15900.25, Some 1100, Some 7042.6, Some 1300, Some 1450, Some 1800, Some 1250, Some
    7042.6, Some 980, Some 1150, Some 15900.25]), (''product_category'', Obj [Some
    ''Electronics'', Some ''Clothing'', Some ''Electronics'', Some ''Furniture'', Some
    ''Electronics'', Some ''Clothing'', Some ''Electronics'', Some ''Furniture'', Some
    ''Clothing'', Some ''Electronics'', Some ''Clothing'', Some ''Furniture'', Some
    ''Electronics'', Some ''Clothing'', Some ''Furniture'', Some ''Electronics'', Some
    ''Clothing'', Some ''Electronics'', Some ''Furniture'', Some ''Electronics'']),
    (''shirt_size'', Obj [Some ''Small'', Some ''Medium'', Some ''Medium'', Some ''Large'', Some
    ''Small'', Some ''Medium'', Some ''Medium'', Some ''XL'', Some ''Small'', Some ''Medium'',
    Some ''Large'', Some ''XL'', Some ''Small'', Some ''Medium'', Some ''Large'', Some
    ''Medium'', Some ''Small'', Some ''XL'', Some ''Medium'', Some ''Large'']), (''grade'', Obj
    [Some ''A'', Some ''B'', Some ''A'', Some ''C'', Some ''B'', Some ''A'', Some ''B'', Some
    ''A'', Some ''C'', Some ''B'', Some ''A'', Some ''C'', Some ''B'', Some ''A'', Some ''C'',
    Some ''B'', Some ''A'', Some ''B'', Some ''C'', Some ''A''])]"

text \<open>The working table after Problem 6: the ages are capped.\<close>

definition table_capped :: frame where
  "table_capped =
    [(''customer_id'', I64 [101, 102, 103, 104, 105, 106, 107, 108, 109, 110, 111, 112, 113,
    114, 115, 116, 117, 118, 119, 120]), (''name'', Obj [Some ''John'', Some ''Sarah'', Some
    ''Mike'', Some ''Emma'', Some ''John'', Some ''Sarah'', Some ''Mike'', Some ''David'', Some
    ''Lisa'', Some ''Tom'', Some ''Jerry'', Some ''Kate'', Some ''Bob'', Some ''Alice'', Some
    ''Charlie'', Some ''Diana'', Some ''Eve'', Some ''Frank'', Some ''Grace'', Some ''Henry'']),
    (''age'', F64 [Some 25, Some 30, Some 28, Some 35, Some 25, Some 30, Some 28, Some 40, Some
    22, Some 43.625, Some 28, Some 33, Some (643 / 18), Some 29, Some 31, Some 27, Some 26, Some
    (643 / 18), Some 32, Some 24]), (''city'', Obj [Some ''Bangalore'', Some ''Chennai'', Some
    ''Hyderabad'', Some ''Delhi'', Some ''Bangalore'', Some ''Chennai'', Some ''Hyderabad'',
    Some ''Mumbai'', Some ''Pune'', Some ''Bangalore'', Some ''Chennai'', Some ''Hyderabad'',
    Some ''Delhi'', Some ''Bangalore'', Some ''Mumbai'', Some ''Bangalore'', Some ''Bangalore'',
    Some ''Chennai'', Some ''Pune'', Some ''Delhi'']), (''purchase_amount'', F64 [Some 1200.5,
    Some 800.3, Some 7042.6, Some 1500, Some 1200.5, Some 800.3, Some 7042.6, Some 2200, Some
    950, Some 15900.25, Some 1100, Some 7042.6, Some 1300, Some 1450, Some 1800, Some 1250, Some
    7042.6, Some 980, Some 1150, Some 15900.25]), (''product_category'', Obj [Some
    ''Electronics'', Some ''Clothing'', Some ''Electronics'', Some ''Furniture'', Some
    ''Electronics'', Some ''Clothing'', Some ''Electronics'', Some ''Furniture'', Some
    ''Clothing'', Some ''Electronics'', Some ''Clothing'', Some ''Furniture'', Some
    ''Electronics'', Some ''Clothing'', Some ''Furniture'', Some ''Electronics'', Some
    ''Clothing'', Some ''Electronics'', Some ''Furniture'', Some ''Electronics'']),
    (''shirt_size'', Obj [Some ''Small'', Some ''Medium'', Some ''Medium'', Some ''Large'', Some
    ''Small'', Some ''Medium'', Some ''Medium'', Some ''XL'', Some ''Small'', Some ''Medium'',
    Some ''Large'', Some ''XL'', Some ''Small'', Some ''Medium'', Some ''Large'', Some
    ''Medium'', Some ''Small'', Some ''XL'', Some ''Medium'', Some ''Large'']), (''grade'', Obj
    [Some ''A'', Some ''B'', Some ''A'', Some ''C'', Some ''B'', Some ''A'', Some ''B'', Some
    ''A'', Some ''C'', Some ''B'', Some ''A'', Some ''C'', Some ''B'', Some ''A'', Some ''C'',
    Some ''B'', Some ''A'', Some ''B'', Some ''C'', Some ''A''])]"

text \<open>The working table after the encodings: three derived columns are added.\<close>

definition table_encoded :: frame where
  "table_encoded =
    [(''customer_id'', I64 [101, 102, 103, 104, 105, 106, 107, 108, 109, 110, 111, 112, 113,
    114, 115, 116, 117, 118, 119, 120]), (''name'', Obj [Some ''John'', Some ''Sarah'', Some
    ''Mike'', Some ''Emma'', Some ''John'', Some ''Sarah'', Some ''Mike'', Some ''David'', Some
    ''Lisa'', Some ''Tom'', Some ''Jerry'', Some ''Kate'', Some ''Bob'', Some ''Alice'', Some
    ''Charlie'', Some ''Diana'', Some ''Eve'', Some ''Frank'', Some ''Grace'', Some ''Henry'']),
    (''age'', F64 [Some 25, Some 30, Some 28, Some 35, Some 25, Some 30, Some 28, Some 40, Some
    22, Some 43.625, Some 28, Some 33, Some (643 / 18), Some 29, Some 31, Some 27, Some 26, Some
    (643 / 18), Some 32, Some 24]), (''city'', Obj [Some ''Bangalore'', Some ''Chennai'', Some
    ''Hyderabad'', Some ''Delhi'', Some ''Bangalore'', Some ''Chennai'', Some ''Hyderabad'',
    Some ''Mumbai'', Some ''Pune'', Some ''Bangalore'', Some ''Chennai'', Some ''Hyderabad'',
    Some ''Delhi'', Some ''Bangalore'', Some ''Mumbai'', Some ''Bangalore'', Some ''Bangalore'',
    Some ''Chennai'', Some ''Pune'', Some ''Delhi'']), (''purchase_amount'', F64 [Some 1200.5,
    Some 800.3, Some 7042.6, Some 1500, Some 1200.5, Some 800.3, Some 7042.6, Some 2200, Some
    950, Some 15900.25, Some 1100, Some 7042.6, Some 1300, Some 1450, Some 1800, Some 1250, Some
    7042.6, Some 980, Some 1150, Some 15900.25]), (''product_category'', Obj [Some
    ''Electronics'', Some ''Clothing'', Some ''Electronics'', Some ''Furniture'', Some
    ''Electronics'', Some ''Clothing'', Some ''Electronics'', Some ''Furniture'', Some
    ''Clothing'', Some ''Electronics'', Some ''Clothing'', Some ''Furniture'', Some
    ''Electronics'', Some ''Clothing'', Some ''Furniture'', Some ''Electronics'', Some
    ''Clothing'', Some ''Electronics'', Some ''Furniture'', Some ''Electronics'']),
    (''shirt_size'', Obj [Some ''Small'', Some ''Medium'', Some ''Medium'', Some ''Large'', Some
    ''Small'', Some ''Medium'', Some ''Medium'', Some ''XL'', Some ''Small'', Some ''Medium'',
    Some ''Large'', Some ''XL'', Some ''Small'', Some ''Medium'', Some ''Large'', Some
    ''Medium'', Some ''Small'', Some ''XL'', Some ''Medium'', Some ''Large'']), (''grade'', Obj
    [Some ''A'', Some ''B'', Some ''A'', Some ''C'', Some ''B'', Some ''A'', Some ''B'', Some
    ''A'', Some ''C'', Some ''B'', Some ''A'', Some ''C'', Some ''B'', Some ''A'', Some ''C'',
    Some ''B'', Some ''A'', Some ''B'', Some ''C'', Some ''A'']), (''size_encoded'', F64 [Some
    0, Some 1, Some 1, Some 2, Some 0, Some 1, Some 1, Some 3, Some 0, Some 1, Some 2, Some 3,
    Some 0, Some 1, Some 2, Some 1, Some 0, Some 3, Some 1, Some 2]), (''grade_encoded'', F64
    [Some 2, Some 1, Some 2, Some 0, Some 1, Some 2, Some 1, Some 2, Some 0, Some 1, Some 2,
    Some 0, Some 1, Some 2, Some 0, Some 1, Some 2, Some 1, Some 0, Some 2]),
    (''category_encoded'', I64 [1, 0, 1, 2, 1, 0, 1, 2, 0, 1, 0, 2, 1, 0, 2, 1, 0, 1, 2, 1])]"

text \<open>The table \<open>city_encoded\<close> of the one-hot encoding.\<close>

definition city_dummies :: frame where
  "city_dummies =
    [(''city_Chennai'', I64 [0, 1, 0, 0, 0, 1, 0, 0, 0, 0, 1, 0, 0, 0, 0, 0, 0, 1, 0, 0]),
    (''city_Delhi'', I64 [0, 0, 0, 1, 0, 0, 0, 0, 0, 0, 0, 0, 1, 0, 0, 0, 0, 0, 0, 1]),
    (''city_Hyderabad'', I64 [0, 0, 1, 0, 0, 0, 1, 0, 0, 0, 0, 1, 0, 0, 0, 0, 0, 0, 0, 0]),
    (''city_Mumbai'', I64 [0, 0, 0, 0, 0, 0, 0, 1, 0, 0, 0, 0, 0, 0, 1, 0, 0, 0, 0, 0]),
    (''city_Pune'', I64 [0, 0, 0, 0, 0, 0, 0, 0, 1, 0, 0, 0, 0, 0, 0, 0, 0, 0, 1, 0])]"

text \<open>The state of the script after the table is built and after each stage.\<close>

definition state0 :: env where
  "state0 =
    empty_env\<lparr>heap := [data, df_built], df := Some 1\<rparr>"

definition state1 :: env where
  "state1 =
    empty_env\<lparr>heap := [data, df_built, table_typed], df := Some 1, df_clean := Some 2\<rparr>"

definition state2 :: env where
  "state2 =
    empty_env\<lparr>heap := [data, df_built, table_typed, table_dedup], df := Some 1, df_clean := Some 3\<rparr>"

definition state3 :: env where
  "state3 =
    empty_env\<lparr>heap := [data, df_built, table_typed, table_imputed], df := Some 1, df_clean := Some 3,
      age_mean := Some (Some (643 / 18)), city_mode := Some ''Bangalore'', purchase_mean := Some
      (Some 7042.6), size_mode := Some ''Medium''\<rparr>"

definition state4 :: env where
  "state4 =
    empty_env\<lparr>heap := [data, df_built, table_typed, table_imputed, table_pruned], df := Some 1, df_clean
      := Some 4, age_mean := Some (Some (643 / 18)), city_mode := Some ''Bangalore'',
      purchase_mean := Some (Some 7042.6), size_mode := Some ''Medium''\<rparr>"

definition state5 :: env where
  "state5 =
    empty_env\<lparr>heap := [data, df_built, table_typed, table_imputed, table_capped_purchase], df := Some 1,
      df_clean := Some 4, age_mean := Some (Some (643 / 18)), city_mode := Some ''Bangalore'',
      purchase_mean := Some (Some 7042.6), size_mode := Some ''Medium'', lower_limit := Some
      (Some (-7720.15)), upper_limit := Some (Some 15900.25)\<rparr>"

definition state6 :: env where
  "state6 =
    empty_env\<lparr>heap := [data, df_built, table_typed, table_imputed, table_capped], df := Some 1, df_clean
      := Some 4, age_mean := Some (Some (643 / 18)), city_mode := Some ''Bangalore'',
      purchase_mean := Some (Some 7042.6), size_mode := Some ''Medium'', lower_limit := Some
      (Some (-7720.15)), upper_limit := Some (Some 15900.25), lower_limit_age := Some (Some
      16.625), upper_limit_age := Some (Some 43.625)\<rparr>"

definition state7 :: env where
  "state7 =
    empty_env\<lparr>heap := [data, df_built, table_typed, table_imputed, table_encoded, city_dummies], df :=
      Some 1, df_clean := Some 4, city_encoded := Some 5, age_mean := Some (Some (643 / 18)),
      city_mode := Some ''Bangalore'', purchase_mean := Some (Some 7042.6), size_mode := Some
      ''Medium'', lower_limit := Some (Some (-7720.15)), upper_limit := Some (Some 15900.25),
      lower_limit_age := Some (Some 16.625), upper_limit_age := Some (Some 43.625)\<rparr>"

section \<open>Sequencing\<close>

lemma ebind_Inr_iff: "ebind m k = Inr y \<longleftrightarrow> (\<exists>x. m = Inr x \<and> k x = Inr y)"
  by (cases m) (simp_all add: ebind_def)

lemma ebind_Inr [simp]: "ebind (Inr x) k = k x"
  by (simp add: ebind_def)

lemma ebind_Inl [simp]: "ebind (Inl e) k = Inl e"
  by (simp add: ebind_def)

lemma ebind_assoc: "ebind (ebind m f) g = ebind m (\<lambda>x. ebind (f x) g)"
  by (cases m) simp_all

lemma run_stages_append: "run_stages (xs @ ys) e = ebind (run_stages xs e) (run_stages ys)"
proof (induction xs arbitrary: e)
  case Nil
  show ?case by simp
next
  case (Cons st xs)
  show ?case
    by (cases "st e") (simp_all add: Cons.IH)
qed

lemma run_stages_single: "run_stages [st] = st"
proof
  fix e show "run_stages [st] e = st e"
    by (cases "st e") simp_all
qed

lemma script_upto_Suc:
  assumes "k < length (stages parse)"
  shows "script_upto parse (Suc k) = ebind (script_upto parse k) (stages parse ! k)"
proof -
  have "take (Suc k) (stages parse) = take k (stages parse) @ [stages parse ! k]"
    using assms by (rule take_Suc_conv_app_nth)
  then have "run_stages (take (Suc k) (stages parse))
      = (\<lambda>e. ebind (run_stages (take k (stages parse)) e) (stages parse ! k))"
    by (simp add: fun_eq_iff run_stages_append run_stages_single)
  then show ?thesis
    by (simp add: script_upto_def ebind_assoc)
qed

lemma length_stages: "length (stages parse) = 7"
  by (simp add: stages_def cleaning_stages_def)

section \<open>The run of the script on its data\<close>

lemma run_construct: "construct empty_env = Inr state0"
  by (simp add: state0_def construct_def iloc_def data_def df_built_def take_rows_def
      empty_env_def alloc_def deref_def load_def ebind_def store_column_def getitem_def setitem_def columns_def nrows_def)

lemma run_stage1: "problem1 parse_decimal state0 = Inr state1"
  by (simp add: state0_def state1_def problem1_def table_typed_def df_built_def parse_decimal_def unsigned_decimal_def digit_val_def parse_cells_def
      empty_env_def alloc_def deref_def load_def ebind_def store_column_def getitem_def setitem_def columns_def nrows_def)

lemma run_stage2: "problem2 state1 = Inr state2"
  by (simp add: state1_def state2_def problem2_def drop_duplicates_def rows_def duplicated_def select_def table_typed_def table_dedup_def
      empty_env_def alloc_def deref_def load_def ebind_def store_column_def getitem_def setitem_def columns_def nrows_def)

lemma run_stage3: "problem3 state2 = Inr state3"
  by (simp add: state2_def state3_def problem3_def table_dedup_def table_imputed_def mean_present_def dropna_def mode0_def modes_def max_count_def unique_def fill_def
      empty_env_def alloc_def deref_def load_def ebind_def store_column_def getitem_def setitem_def columns_def nrows_def)

lemma run_stage4: "problem4 state3 = Inr state4"
  by (simp add: state3_def state4_def problem4_def columns_to_drop_def drop_columns_def table_imputed_def table_pruned_def
      empty_env_def alloc_def deref_def load_def ebind_def store_column_def getitem_def setitem_def columns_def nrows_def)

lemma run_stage5: "problem5 state4 = Inr state5"
  by (simp add: state4_def state5_def problem5_def iqr_limits_def quantile_present_def quantile_sorted_def dropna_def fsub_def fadd_def fmul_def flt_def cap_def table_pruned_def table_capped_purchase_def
      empty_env_def alloc_def deref_def load_def ebind_def store_column_def getitem_def setitem_def columns_def nrows_def)

lemma run_stage6: "problem6 state5 = Inr state6"
  by (simp add: state5_def state6_def problem6_def iqr_limits_def quantile_present_def quantile_sorted_def dropna_def fsub_def fadd_def fmul_def flt_def cap_def table_capped_purchase_def table_capped_def
      empty_env_def alloc_def deref_def load_def ebind_def store_column_def getitem_def setitem_def columns_def nrows_def)

lemma run_stage7: "bonus state6 = Inr state7"
  by (simp add: state6_def state7_def bonus_def categories_def classes_def unique_def dropna_def table_capped_def table_encoded_def city_dummies_def
      empty_env_def alloc_def deref_def load_def ebind_def store_column_def getitem_def setitem_def columns_def nrows_def)

lemma script_upto_0: "script_upto parse_decimal 0 = Inr state0"
  by (simp add: script_upto_def run_construct)

lemma script_upto_1: "script_upto parse_decimal 1 = Inr state1"
  using script_upto_Suc[of 0 parse_decimal] script_upto_0 run_stage1
  by (simp add: length_stages stages_def cleaning_stages_def)

lemma script_upto_2: "script_upto parse_decimal 2 = Inr state2"
  using script_upto_Suc[of 1 parse_decimal] script_upto_1 run_stage2
  by (simp add: length_stages stages_def cleaning_stages_def numeral_2_eq_2)

lemma script_upto_3: "script_upto parse_decimal 3 = Inr state3"
  using script_upto_Suc[of 2 parse_decimal] script_upto_2 run_stage3
  by (simp add: length_stages stages_def cleaning_stages_def numeral_3_eq_3)

lemma script_upto_4: "script_upto parse_decimal 4 = Inr state4"
  using script_upto_Suc[of 3 parse_decimal] script_upto_3 run_stage4
  by (simp add: length_stages stages_def cleaning_stages_def eval_nat_numeral)

lemma script_upto_5: "script_upto parse_decimal 5 = Inr state5"
  using script_upto_Suc[of 4 parse_decimal] script_upto_4 run_stage5
  by (simp add: length_stages stages_def cleaning_stages_def eval_nat_numeral)

lemma script_upto_6: "script_upto parse_decimal 6 = Inr state6"
  using script_upto_Suc[of 5 parse_decimal] script_upto_5 run_stage6
  by (simp add: length_stages stages_def cleaning_stages_def eval_nat_numeral)

lemma script_upto_7: "script_upto parse_decimal 7 = Inr state7"
  using script_upto_Suc[of 6 parse_decimal] script_upto_6 run_stage7
  by (simp add: length_stages stages_def cleaning_stages_def eval_nat_numeral)

lemma script_is_upto_7: "script parse = script_upto parse 7"
  by (simp add: script_def script_upto_def length_stages)


lemma working_table_1: "working_table parse_decimal 1 = Inr table_typed"
  unfolding working_table_def script_upto_1
  by (simp add: state1_def deref_def load_def empty_env_def)

lemma working_table_2: "working_table parse_decimal 2 = Inr table_dedup"
  unfolding working_table_def script_upto_2
  by (simp add: state2_def deref_def load_def empty_env_def)

lemma working_table_3: "working_table parse_decimal 3 = Inr table_imputed"
  unfolding working_table_def script_upto_3
  by (simp add: state3_def deref_def load_def empty_env_def)

lemma working_table_4: "working_table parse_decimal 4 = Inr table_pruned"
  unfolding working_table_def script_upto_4
  by (simp add: state4_def deref_def load_def empty_env_def)

lemma working_table_5: "working_table parse_decimal 5 = Inr table_capped_purchase"
  unfolding working_table_def script_upto_5
  by (simp add: state5_def deref_def load_def empty_env_def)

lemma working_table_6: "working_table parse_decimal 6 = Inr table_capped"
  unfolding working_table_def script_upto_6
  by (simp add: state6_def deref_def load_def empty_env_def)

lemma working_table_7: "working_table parse_decimal 7 = Inr table_encoded"
  unfolding working_table_def script_upto_7
  by (simp add: state7_def deref_def load_def empty_env_def)

lemma drop_duplicates_table_typed: "drop_duplicates table_typed = table_dedup"
  using run_stage2
  by (simp add: problem2_def state1_def state2_def empty_env_def deref_def load_def alloc_def)

section \<open>Duplicate elimination\<close>

lemma length_duplicated_from: "length (duplicated_from seen rs) = length rs"
  by (induction rs arbitrary: seen) simp_all

lemma duplicated_from_nth:
  "i < length rs \<Longrightarrow>
   duplicated_from seen rs ! i \<longleftrightarrow> (rs ! i \<in> set seen \<or> (\<exists>j<i. rs ! j = rs ! i))"
proof (induction rs arbitrary: seen i)
  case Nil
  then show ?case by simp
next
  case (Cons r rs)
  show ?case
  proof (cases i)
    case 0
    then show ?thesis by simp
  next
    case (Suc k)
    with Cons.prems have k: "k < length rs" by simp
    have ex: "(\<exists>j<Suc k. (r # rs) ! j = rs ! k) \<longleftrightarrow> (r = rs ! k \<or> (\<exists>j<k. rs ! j = rs ! k))"
      by (auto simp: less_Suc_eq_0_disj)
    show ?thesis
      using Cons.IH[OF k] ex Suc by auto
  qed
qed

lemma select_Nil [simp]: "select [] xs = []" "select bs [] = []"
  by (simp_all add: select_def)

lemma select_Cons [simp]:
  "select (b # bs) (x # xs) = (if b then x # select bs xs else select bs xs)"
  by (simp add: select_def)

lemma select_duplicated_from:
  "select (map Not (duplicated_from seen rs)) rs = unique_from seen rs"
  by (induction rs arbitrary: seen) simp_all

lemma set_unique_from: "set (unique_from seen xs) = set xs - set seen"
  by (induction xs arbitrary: seen) auto

lemma distinct_unique_from: "distinct (unique_from seen xs)"
  by (induction xs arbitrary: seen) (auto simp: set_unique_from)

lemma set_unique [simp]: "set (unique xs) = set xs"
  by (simp add: unique_def set_unique_from)

lemma distinct_unique [simp]: "distinct (unique xs)"
  by (simp add: unique_def distinct_unique_from)

lemma length_unique: "length (unique xs) = card (set xs)"
  using distinct_card[of "unique xs"] by simp

lemma sum_excess_count:
  "(\<Sum>r\<in>set rs. count_list rs r - 1) = length rs - card (set rs)"
proof -
  have "(\<Sum>r\<in>set rs. count_list rs r - 1) = (\<Sum>r\<in>set rs. count_list rs r) - (\<Sum>r\<in>set rs. 1)"
  proof (rule sum_subtractf_nat)
    fix r assume "r \<in> set rs"
    then show "1 \<le> count_list rs r"
      using count_list_0_iff[of rs r] by (cases "count_list rs r") auto
  qed
  also have "(\<Sum>r\<in>set rs. count_list rs r) = length rs"
    by (rule sum_count_set) simp_all
  finally show ?thesis by simp
qed

lemma select_map: "select bs (map g xs) = map g (select bs xs)"
  by (simp add: select_def zip_map2 filter_map o_def split_def)

lemma select_as_nth:
  assumes "length xs = n"
  shows "select bs xs = map (nth xs) (select bs [0..<n])"
proof -
  have "map (nth xs) [0..<n] = xs"
    unfolding assms[symmetric] by (rule map_nth)
  then have "select bs xs = select bs (map (nth xs) [0..<n])"
    by (simp only:)
  then show ?thesis
    by (simp only: select_map)
qed

lemma length_cells [simp]: "length (cells c) = slen c"
  by (cases c) simp_all

lemma cells_select_series: "cells (select_series bs c) = select bs (cells c)"
  by (cases c) (simp_all add: select_map)

lemma length_rows [simp]: "length (rows f) = nrows f"
  by (simp add: rows_def)

lemma rows_drop_duplicates:
  assumes wf: "wf_frame f"
  shows "rows (drop_duplicates f) = unique (rows f)"
proof -
  define keep where "keep = map Not (duplicated (rows f))"
  define idxs where "idxs = select keep [0..<nrows f]"
  define g where "g = (\<lambda>i. map (\<lambda>(n, c). cells c ! i) f)"
  have dd: "drop_duplicates f = map (\<lambda>(n, c). (n, select_series keep c)) f"
    by (simp add: drop_duplicates_def keep_def)
  have col: "cells (select_series keep c) = map (nth (cells c)) idxs"
    if "(n, c) \<in> set f" for n c
  proof -
    have "slen c = nrows f"
      using wf that by (auto simp: wf_frame_def list_all_iff)
    then show ?thesis
      unfolding cells_select_series idxs_def by (intro select_as_nth) simp
  qed
  have nr: "nrows (drop_duplicates f) = length idxs"
  proof (cases f)
    case Nil
    then show ?thesis by (simp add: drop_duplicates_def nrows_def idxs_def)
  next
    case (Cons p f')
    obtain n c where p: "p = (n, c)" by (cases p)
    have "(n, c) \<in> set f" using Cons p by simp
    from col[OF this] have "slen (select_series keep c) = length idxs"
      by (metis length_cells length_map)
    then show ?thesis
      using Cons p by (simp add: drop_duplicates_def keep_def nrows_def Let_def)
  qed
  have "rows (drop_duplicates f)
      = map (\<lambda>k. map (\<lambda>(n, c). cells (select_series keep c) ! k) f) [0..<length idxs]"
    by (simp add: rows_def nr) (simp add: dd o_def split_def)
  also have "\<dots> = map (\<lambda>k. g (idxs ! k)) [0..<length idxs]"
    unfolding g_def
    by (rule map_cong[OF refl], rule map_cong[OF refl]) (auto simp: col)
  also have "\<dots> = map g (map (nth idxs) [0..<length idxs])"
    by (simp add: o_def)
  also have "\<dots> = map g idxs"
    by (simp only: map_nth)
  also have "\<dots> = select keep (map g [0..<nrows f])"
    by (simp add: idxs_def select_map)
  also have "map g [0..<nrows f] = rows f"
    by (simp add: rows_def g_def)
  finally show ?thesis
    by (simp add: keep_def duplicated_def select_duplicated_from unique_def)
qed

text \<open>
  Claim C6. The mask of \<open>duplicated\<close> is true at a row exactly when an earlier row is
  equal to it, where rows are equal when all their cells are, and the missing marker is
  a cell value like any other (\<open>None = None\<close>). \<open>drop_duplicates\<close> keeps the rows
  whose mask bit is false, in their order, so of each group of equal rows the first one
  stays and the later ones go; the rows that stay are pairwise different, and their
  number is the number of rows less the sum, over the distinct rows, of the occurrences
  beyond the first. In the script the table has 23 rows before this stage and 20 after.
\<close>

theorem duplicate_elimination:
  "(wf_frame f \<longrightarrow>
      length (duplicated (rows f)) = nrows f
    \<and> (\<forall>i<nrows f. duplicated (rows f) ! i \<longleftrightarrow> (\<exists>j<i. rows f ! j = rows f ! i))
    \<and> rows (drop_duplicates f) = select (map Not (duplicated (rows f))) (rows f)
    \<and> distinct (rows (drop_duplicates f))
    \<and> set (rows (drop_duplicates f)) = set (rows f)
    \<and> nrows (drop_duplicates f)
        = nrows f - (\<Sum>r\<in>set (rows f). count_list (rows f) r - 1))
   \<and> (S None = S None \<and> F None = F None)
   \<and> working_table parse_decimal 1 = Inr table_typed \<and> nrows table_typed = 23
   \<and> working_table parse_decimal 2 = Inr (drop_duplicates table_typed)
   \<and> nrows (drop_duplicates table_typed) = 20"
proof -
  have general: "length (duplicated (rows f)) = nrows f
    \<and> (\<forall>i<nrows f. duplicated (rows f) ! i \<longleftrightarrow> (\<exists>j<i. rows f ! j = rows f ! i))
    \<and> rows (drop_duplicates f) = select (map Not (duplicated (rows f))) (rows f)
    \<and> distinct (rows (drop_duplicates f))
    \<and> set (rows (drop_duplicates f)) = set (rows f)
    \<and> nrows (drop_duplicates f)
        = nrows f - (\<Sum>r\<in>set (rows f). count_list (rows f) r - 1)" if wf: "wf_frame f"
  proof -
    have u: "rows (drop_duplicates f) = unique (rows f)"
      using wf by (rule rows_drop_duplicates)
    have sel: "select (map Not (duplicated (rows f))) (rows f) = unique (rows f)"
      by (simp add: duplicated_def select_duplicated_from unique_def)
    have "card (set (rows f)) \<le> length (rows f)"
      by (rule card_length)
    then have "length (unique (rows f))
        = length (rows f) - (\<Sum>r\<in>set (rows f). count_list (rows f) r - 1)"
      unfolding length_unique sum_excess_count by arith
    then have n: "nrows (drop_duplicates f)
        = nrows f - (\<Sum>r\<in>set (rows f). count_list (rows f) r - 1)"
      using u length_rows[of "drop_duplicates f"] by simp
    have m: "\<forall>i<nrows f. duplicated (rows f) ! i \<longleftrightarrow> (\<exists>j<i. rows f ! j = rows f ! i)"
      by (simp add: duplicated_def duplicated_from_nth)
    show ?thesis
      using u sel n m by (simp add: duplicated_def length_duplicated_from)
  qed
  have n23: "nrows table_typed = 23"
    by (simp add: table_typed_def nrows_def)
  have n20: "nrows (drop_duplicates table_typed) = 20"
    by (simp add: drop_duplicates_table_typed table_dedup_def nrows_def)
  have w1: "working_table parse_decimal 1 = Inr table_typed"
    by (rule working_table_1)
  have w2: "working_table parse_decimal 2 = Inr (drop_duplicates table_typed)"
    unfolding drop_duplicates_table_typed by (rule working_table_2)
  show ?thesis
    using general n23 n20 w1 w2 by blast
qed

theorem duplicate_elimination_witness:
  "wf_frame table_typed
   \<and> nrows (drop_duplicates table_typed)
       = nrows table_typed
         - (\<Sum>r\<in>set (rows table_typed). count_list (rows table_typed) r - 1)
   \<and> nrows table_typed = 23
   \<and> nrows (drop_duplicates table_typed) = 20
   \<and> distinct (rows (drop_duplicates table_typed))"
proof -
  have wf: "wf_frame table_typed"
    by (simp add: wf_frame_def table_typed_def nrows_def)
  show ?thesis
    using duplicate_elimination[of table_typed] wf by blast
qed

section \<open>Tables and environments\<close>

lemma load_Inr_iff:
  "load e v = Inr (r, f) \<longleftrightarrow> v = Some r \<and> r < length (heap e) \<and> f = heap e ! r"
  by (auto simp: load_def split: option.splits)

lemma deref_Inr_iff:
  "deref e v = Inr f \<longleftrightarrow> (\<exists>r. v = Some r \<and> r < length (heap e) \<and> f = heap e ! r)"
  by (auto simp: deref_def load_def split: option.splits)

lemma getitem_nonempty: "getitem f n = Inr c \<Longrightarrow> f \<noteq> []"
  by (auto simp: getitem_def)

lemma map_of_replace_same:
  "n \<in> fst ` set f \<Longrightarrow>
   map_of (map (\<lambda>(k, s). if k = n then (k, c) else (k, s)) f) n = Some c"
  by (induction f) auto

lemma map_of_replace_other:
  "m \<noteq> n \<Longrightarrow> map_of (map (\<lambda>(k, s). if k = n then (k, c) else (k, s)) f) m = map_of f m"
  by (induction f) auto

lemma getitem_setitem_same:
  assumes "setitem f n c = Inr g"
  shows "getitem g n = Inr c"
proof (cases "n \<in> fst ` set f")
  case True
  then have "g = map (\<lambda>(k, s). if k = n then (k, c) else (k, s)) f"
    using assms by (auto simp: setitem_def columns_def split: if_splits)
  then show ?thesis
    using True by (simp add: getitem_def map_of_replace_same)
next
  case False
  then have g: "g = f @ [(n, c)]"
    using assms by (auto simp: setitem_def columns_def split: if_splits)
  have "map_of f n = None"
    using False by (simp add: map_of_eq_None_iff)
  then show ?thesis
    by (simp add: g getitem_def map_add_def)
qed

lemma getitem_setitem_other: "setitem f n c = Inr g \<Longrightarrow> m \<noteq> n \<Longrightarrow> getitem g m = getitem f m"
  by (auto simp: setitem_def getitem_def columns_def map_of_replace_other map_add_def
      split: if_splits option.splits)

lemma nrows_setitem: "setitem f n c = Inr g \<Longrightarrow> f \<noteq> [] \<Longrightarrow> nrows g = nrows f"
  by (cases f) (auto simp: setitem_def nrows_def split: if_splits)

lemma setitem_succeeds: "slen c = nrows f \<Longrightarrow> \<exists>g. setitem f n c = Inr g"
  by (simp add: setitem_def)


lemma store_column_eq:
  "r < length (heap e) \<Longrightarrow> setitem (heap e ! r) n c = Inr g \<Longrightarrow>
   store_column e r n c = Inr (e\<lparr>heap := (heap e)[r := g]\<rparr>)"
  by (simp add: store_column_def ebind_def)

lemma slen_replace [simp]: "slen (replace c old new) = slen c"
  by (cases c) simp_all

lemma length_parse_cells [simp]: "length (parse_cells parse xs) = length xs"
  by (simp add: parse_cells_def)

lemma slen_to_numeric [simp]: "slen (to_numeric parse c) = slen c"
  by (cases c) (simp_all add: Let_def)

lemma is_numeric_to_numeric [simp]: "is_numeric (to_numeric parse c)"
  by (cases c) (simp_all add: Let_def)



section \<open>Type normalisation\<close>




section \<open>Missing values\<close>

lemma max_count_eq_Max:
  "max_count vs = Max (set (0 # map (count_list vs) (unique vs)))"
  unfolding max_count_def by (rule Max.set_eq_fold[symmetric])

lemma count_le_max_count: "count_list vs v \<le> max_count vs"
proof (cases "v \<in> set vs")
  case True
  then have "count_list vs v \<in> set (0 # map (count_list vs) (unique vs))"
    by simp
  then show ?thesis
    unfolding max_count_eq_Max by (intro Max_ge) simp_all
next
  case False
  then show ?thesis by (simp add: count_list_0_iff)
qed

lemma max_count_attained:
  assumes "vs \<noteq> []"
  shows "\<exists>v\<in>set vs. count_list vs v = max_count vs"
proof -
  obtain w where w: "w \<in> set vs" using assms by (cases vs) auto
  then have pos: "0 < count_list vs w"
    using count_list_0_iff[of vs w] by (cases "count_list vs w") auto
  have "max_count vs \<in> set (0 # map (count_list vs) (unique vs))"
    unfolding max_count_eq_Max by (rule Max_in) simp_all
  moreover have "max_count vs \<noteq> 0"
    using count_le_max_count[of vs w] pos by simp
  ultimately show ?thesis by auto
qed

lemma set_modes: "set (modes vs) = {v \<in> set vs. count_list vs v = max_count vs}"
  by (auto simp: modes_def)

lemma modes_nonempty: "vs \<noteq> [] \<Longrightarrow> modes vs \<noteq> []"
  using max_count_attained[of vs] set_modes[of vs]
  by (metis (mono_tags, lifting) empty_iff list.set(1) mem_Collect_eq)

lemma sorted_modes: "sorted (modes vs)"
  by (simp add: modes_def)

lemma mode0_succeeds: "dropna xs \<noteq> [] \<Longrightarrow> \<exists>m. mode0 xs = Inr m"
  using modes_nonempty[of "dropna xs"] by (auto simp: mode0_def split: list.splits)

lemma mode0_properties:
  assumes "mode0 xs = Inr m"
  shows "m \<in> set (dropna xs)"
    and "count_list (dropna xs) m = max_count (dropna xs)"
    and "count_list (dropna xs) v \<le> count_list (dropna xs) m"
    and "v \<in> set (dropna xs) \<Longrightarrow> count_list (dropna xs) v = count_list (dropna xs) m \<Longrightarrow> m \<le> v"
proof -
  obtain ms where ms: "modes (dropna xs) = m # ms"
    using assms by (auto simp: mode0_def split: list.splits)
  then have "m \<in> set (modes (dropna xs))" by simp
  then show in_set: "m \<in> set (dropna xs)"
    and cnt: "count_list (dropna xs) m = max_count (dropna xs)"
    by (simp_all add: set_modes)
  show "count_list (dropna xs) v \<le> count_list (dropna xs) m"
    using count_le_max_count[of "dropna xs" v] cnt by simp
  assume "v \<in> set (dropna xs)" "count_list (dropna xs) v = count_list (dropna xs) m"
  then have "v \<in> set (modes (dropna xs))"
    using cnt by (simp add: set_modes)
  then show "m \<le> v"
    using sorted_modes[of "dropna xs"] ms by auto
qed

lemma set_dropna: "set (dropna xs) = {v. Some v \<in> set xs}"
  by (induction xs) (auto simp: dropna_def split: option.splits)

lemma dropna_nonempty_iff: "dropna xs \<noteq> [] \<longleftrightarrow> (\<exists>v. Some v \<in> set xs)"
  using set_dropna[of xs] by (metis (mono_tags, lifting) Collect_empty_eq empty_set set_empty2)

lemma length_fill [simp]: "length (fill v xs) = length xs"
  by (simp add: fill_def)

lemma None_notin_fill [simp]: "None \<notin> set (fill v xs)"
  by (auto simp: fill_def split: option.splits)

lemma filter_None_fill [simp]: "filter (\<lambda>c. c = None) (fill v xs) = []"
  by (induction xs) (auto simp: fill_def split: option.splits)

lemma nth_fill:
  "i < length xs \<Longrightarrow> fill v xs ! i = (case xs ! i of None \<Rightarrow> Some v | Some x \<Rightarrow> Some x)"
  by (simp add: fill_def)

lemma wf_frame_slen: "wf_frame f \<Longrightarrow> getitem f n = Inr c \<Longrightarrow> slen c = nrows f"
  by (auto simp: wf_frame_def getitem_def list_all_iff split: option.splits dest!: map_of_SomeD)

lemma mean_F64: "dropna xs \<noteq> [] \<Longrightarrow>
  mean (F64 xs) = Inr (Some (sum_list (dropna xs) / real (length (dropna xs))))"
  by (simp add: mean_present_def)

lemma problem3_result:
  assumes ld: "load e (df_clean e) = Inr (r, f)"
    and wf: "wf_frame f"
    and age: "getitem f ''age'' = Inr (F64 a)"
    and city: "getitem f ''city'' = Inr (Obj c)"
    and pa: "getitem f ''purchase_amount'' = Inr (F64 p)"
    and sz: "getitem f ''shirt_size'' = Inr (Obj s)"
    and pres: "dropna a \<noteq> []" "dropna c \<noteq> []" "dropna p \<noteq> []" "dropna s \<noteq> []"
  shows "\<exists>e' f' mc ms. problem3 e = Inr e'
      \<and> deref e' (df_clean e') = Inr f'
      \<and> df_clean e' = df_clean e
      \<and> nrows f' = nrows f
      \<and> mode0 c = Inr mc \<and> mode0 s = Inr ms
      \<and> age_mean e' = Some (Some (sum_list (dropna a) / real (length (dropna a))))
      \<and> purchase_mean e' = Some (Some (sum_list (dropna p) / real (length (dropna p))))
      \<and> city_mode e' = Some mc \<and> size_mode e' = Some ms
      \<and> getitem f' ''age'' = Inr (F64 (fill (sum_list (dropna a) / real (length (dropna a))) a))
      \<and> getitem f' ''purchase_amount''
          = Inr (F64 (fill (sum_list (dropna p) / real (length (dropna p))) p))
      \<and> getitem f' ''city'' = Inr (Obj (fill mc c))
      \<and> getitem f' ''shirt_size'' = Inr (Obj (fill ms s))"
proof -
  from ld have d: "df_clean e = Some r" and r: "r < length (heap e)" and f: "heap e ! r = f"
    by (simp_all add: load_Inr_iff)
  define ma where "ma = sum_list (dropna a) / real (length (dropna a))"
  define mp where "mp = sum_list (dropna p) / real (length (dropna p))"
  obtain mc where mc: "mode0 c = Inr mc" using mode0_succeeds[OF pres(2)] by blast
  obtain ms where ms: "mode0 s = Inr ms" using mode0_succeeds[OF pres(4)] by blast
  have la: "length a = nrows f" using wf_frame_slen[OF wf age] by simp
  have lc: "length c = nrows f" using wf_frame_slen[OF wf city] by simp
  have lp: "length p = nrows f" using wf_frame_slen[OF wf pa] by simp
  have ls: "length s = nrows f" using wf_frame_slen[OF wf sz] by simp
  have ne: "f \<noteq> []" using age by (rule getitem_nonempty)
  obtain g1 where g1: "setitem f ''age'' (F64 (fill ma a)) = Inr g1"
    using setitem_succeeds[of "F64 (fill ma a)" f] la by auto
  have n1: "nrows g1 = nrows f" using g1 ne by (rule nrows_setitem)
  have ne1: "g1 \<noteq> []" using getitem_setitem_same[OF g1] by (rule getitem_nonempty)
  have c1: "getitem g1 ''city'' = Inr (Obj c)"
    using getitem_setitem_other[OF g1, of "''city''"] city by simp
  obtain g2 where g2: "setitem g1 ''city'' (Obj (fill mc c)) = Inr g2"
    using setitem_succeeds[of "Obj (fill mc c)" g1] lc n1 by auto
  have n2: "nrows g2 = nrows f" using nrows_setitem[OF g2 ne1] n1 by simp
  have ne2: "g2 \<noteq> []" using getitem_setitem_same[OF g2] by (rule getitem_nonempty)
  have p2: "getitem g2 ''purchase_amount'' = Inr (F64 p)"
    using getitem_setitem_other[OF g2, of "''purchase_amount''"]
      getitem_setitem_other[OF g1, of "''purchase_amount''"] pa by simp
  obtain g3 where g3: "setitem g2 ''purchase_amount'' (F64 (fill mp p)) = Inr g3"
    using setitem_succeeds[of "F64 (fill mp p)" g2] lp n2 by auto
  have n3: "nrows g3 = nrows f" using nrows_setitem[OF g3 ne2] n2 by simp
  have ne3: "g3 \<noteq> []" using getitem_setitem_same[OF g3] by (rule getitem_nonempty)
  have s3: "getitem g3 ''shirt_size'' = Inr (Obj s)"
    using getitem_setitem_other[OF g3, of "''shirt_size''"]
      getitem_setitem_other[OF g2, of "''shirt_size''"]
      getitem_setitem_other[OF g1, of "''shirt_size''"] sz by simp
  obtain g4 where g4: "setitem g3 ''shirt_size'' (Obj (fill ms s)) = Inr g4"
    using setitem_succeeds[of "Obj (fill ms s)" g3] ls n3 by auto
  have n4: "nrows g4 = nrows f" using nrows_setitem[OF g4 ne3] n3 by simp
  have a4: "getitem g4 ''age'' = Inr (F64 (fill ma a))"
    using getitem_setitem_other[OF g4, of "''age''"]
      getitem_setitem_other[OF g3, of "''age''"]
      getitem_setitem_other[OF g2, of "''age''"] getitem_setitem_same[OF g1] by simp
  have c4: "getitem g4 ''city'' = Inr (Obj (fill mc c))"
    using getitem_setitem_other[OF g4, of "''city''"]
      getitem_setitem_other[OF g3, of "''city''"] getitem_setitem_same[OF g2] by simp
  have p4: "getitem g4 ''purchase_amount'' = Inr (F64 (fill mp p))"
    using getitem_setitem_other[OF g4, of "''purchase_amount''"] getitem_setitem_same[OF g3]
    by simp
  have s4: "getitem g4 ''shirt_size'' = Inr (Obj (fill ms s))"
    using getitem_setitem_same[OF g4] .
  define e' where "e' = e\<lparr>heap := (heap e)[r := g4], age_mean := Some (Some ma),
    city_mode := Some mc, purchase_mean := Some (Some mp), size_mode := Some ms\<rparr>"
  have run: "problem3 e = Inr e'"
    using d r f age g1 c1 mc g2 p2 g3 s3 ms g4 mean_F64[OF pres(1)] mean_F64[OF pres(3)]
    by (simp add: problem3_def deref_def load_def store_column_def ebind_def
        ma_def[symmetric] mp_def[symmetric] e'_def)
  have tab: "deref e' (df_clean e') = Inr g4"
    using d r by (simp add: e'_def deref_def load_def ebind_def)
  show ?thesis
    using run tab n4 mc ms a4 c4 p4 s4 d
    by (auto simp: e'_def ma_def mp_def)
qed

lemma ready_table_dedup:
  "ready_for_imputation table_dedup
     (floats_of (getitem table_dedup ''age'')) (strings_of (getitem table_dedup ''city''))
     (floats_of (getitem table_dedup ''purchase_amount''))
     (strings_of (getitem table_dedup ''shirt_size''))"
  by (simp add: ready_for_imputation_def wf_frame_def table_dedup_def nrows_def getitem_def
      dropna_def)

lemma age_table_dedup:
  "floats_of (getitem table_dedup ''age'')
   = [Some 25, Some 30, Some 28, Some 35, Some 25, Some 30, Some 28, Some 40, Some 22,
      Some 150, Some 28, Some 33, None, Some 29, Some 31, Some 27, Some 26, None, Some 32,
      Some 24]"
  by (simp add: table_dedup_def getitem_def)

lemma purchase_table_dedup:
  "floats_of (getitem table_dedup ''purchase_amount'')
   = [Some 1200.5, Some 800.3, None, Some 1500, Some 1200.5, Some 800.3, None, Some 2200,
      Some 950, Some 50000, Some 1100, None, Some 1300, Some 1450, Some 1800, Some 1250,
      None, Some 980, Some 1150, Some 45000]"
  by (simp add: table_dedup_def getitem_def)

lemma city_table_dedup:
  "strings_of (getitem table_dedup ''city'')
   = [Some ''Bangalore'', Some ''Chennai'', Some ''Hyderabad'', Some ''Delhi'',
      Some ''Bangalore'', Some ''Chennai'', Some ''Hyderabad'', Some ''Mumbai'', Some ''Pune'',
      Some ''Bangalore'', Some ''Chennai'', Some ''Hyderabad'', Some ''Delhi'', None,
      Some ''Mumbai'', Some ''Bangalore'', None, Some ''Chennai'', Some ''Pune'',
      Some ''Delhi'']"
  by (simp add: table_dedup_def getitem_def)

lemma size_table_dedup:
  "strings_of (getitem table_dedup ''shirt_size'')
   = [Some ''Small'', Some ''Medium'', None, Some ''Large'', Some ''Small'', Some ''Medium'',
      None, Some ''XL'', Some ''Small'', Some ''Medium'', Some ''Large'', Some ''XL'',
      Some ''Small'', None, Some ''Large'', Some ''Medium'', Some ''Small'', Some ''XL'',
      Some ''Medium'', Some ''Large'']"
  by (simp add: table_dedup_def getitem_def)

lemma mode0_city_table_dedup:
  "mode0 (strings_of (getitem table_dedup ''city'')) = Inr ''Bangalore''"
  unfolding city_table_dedup
  by (simp add: mode0_def modes_def max_count_def unique_def dropna_def)

lemma mode0_size_table_dedup:
  "mode0 (strings_of (getitem table_dedup ''shirt_size'')) = Inr ''Medium''"
  unfolding size_table_dedup
  by (simp add: mode0_def modes_def max_count_def unique_def dropna_def)

lemma load_state2: "load state2 (df_clean state2) = Inr (3, table_dedup)"
  by (simp add: state2_def empty_env_def load_def)

text \<open>
  Claim C5. Problem 3, run on a working table that has the four columns with a present
  value in each, completes; the scalar it substitutes in the age column and in the
  purchase-amount column is the sum of the present values of that column divided by
  their number, and every missing cell of the column becomes that scalar while the
  present cells keep their values; afterwards the age, city, purchase-amount and size
  columns have no missing cell. The stage runs on the state that duplicate elimination
  leaves and before the column pruning and the capping stages.
\<close>

theorem numeric_imputation:
  "(load e (df_clean e) = Inr (r, f) \<and> ready_for_imputation f a c p s \<longrightarrow>
      (\<exists>e' f'. problem3 e = Inr e' \<and> deref e' (df_clean e') = Inr f'
         \<and> age_mean e' = Some (Some (sum_list (dropna a) / real (length (dropna a))))
         \<and> purchase_mean e' = Some (Some (sum_list (dropna p) / real (length (dropna p))))
         \<and> getitem f' ''age''
             = Inr (F64 (fill (sum_list (dropna a) / real (length (dropna a))) a))
         \<and> getitem f' ''purchase_amount''
             = Inr (F64 (fill (sum_list (dropna p) / real (length (dropna p))) p))
         \<and> list_all (\<lambda>n. ebind (getitem f' n) (\<lambda>col. Inr (isnull_sum col)) = Inr 0)
              [''age'', ''city'', ''purchase_amount'', ''shirt_size'']))
   \<and> script_upto parse 2 = ebind (script_upto parse 1) problem2
   \<and> script_upto parse 3 = ebind (script_upto parse 2) problem3
   \<and> script_upto parse 5 = ebind (ebind (script_upto parse 3) problem4) problem5"
proof -
  have order: "script_upto parse 2 = ebind (script_upto parse 1) problem2"
    "script_upto parse 3 = ebind (script_upto parse 2) problem3"
    "script_upto parse 5 = ebind (ebind (script_upto parse 3) problem4) problem5"
    using script_upto_Suc[of 1 parse] script_upto_Suc[of 2 parse] script_upto_Suc[of 3 parse]
      script_upto_Suc[of 4 parse]
    by (simp_all add: length_stages stages_def cleaning_stages_def eval_nat_numeral)
  have "\<exists>e' f'. problem3 e = Inr e' \<and> deref e' (df_clean e') = Inr f'
         \<and> age_mean e' = Some (Some (sum_list (dropna a) / real (length (dropna a))))
         \<and> purchase_mean e' = Some (Some (sum_list (dropna p) / real (length (dropna p))))
         \<and> getitem f' ''age''
             = Inr (F64 (fill (sum_list (dropna a) / real (length (dropna a))) a))
         \<and> getitem f' ''purchase_amount''
             = Inr (F64 (fill (sum_list (dropna p) / real (length (dropna p))) p))
         \<and> list_all (\<lambda>n. ebind (getitem f' n) (\<lambda>col. Inr (isnull_sum col)) = Inr 0)
              [''age'', ''city'', ''purchase_amount'', ''shirt_size'']"
    if ld: "load e (df_clean e) = Inr (r, f)" and rd: "ready_for_imputation f a c p s"
  proof -
    from rd have h: "wf_frame f" "getitem f ''age'' = Inr (F64 a)"
      "getitem f ''city'' = Inr (Obj c)" "getitem f ''purchase_amount'' = Inr (F64 p)"
      "getitem f ''shirt_size'' = Inr (Obj s)"
      "dropna a \<noteq> []" "dropna c \<noteq> []" "dropna p \<noteq> []" "dropna s \<noteq> []"
      by (simp_all add: ready_for_imputation_def)
    from problem3_result[OF ld h] obtain e' f' mc ms where
      "problem3 e = Inr e'" "deref e' (df_clean e') = Inr f'"
      "age_mean e' = Some (Some (sum_list (dropna a) / real (length (dropna a))))"
      "purchase_mean e' = Some (Some (sum_list (dropna p) / real (length (dropna p))))"
      "getitem f' ''age'' = Inr (F64 (fill (sum_list (dropna a) / real (length (dropna a))) a))"
      "getitem f' ''purchase_amount''
          = Inr (F64 (fill (sum_list (dropna p) / real (length (dropna p))) p))"
      "getitem f' ''city'' = Inr (Obj (fill mc c))"
      "getitem f' ''shirt_size'' = Inr (Obj (fill ms s))"
      by blast
    then show ?thesis
      by (intro exI[of _ e'] exI[of _ f']) simp
  qed
  then show ?thesis
    using order by blast
qed

theorem numeric_imputation_witness:
  "\<exists>e' f'. problem3 state2 = Inr e' \<and> deref e' (df_clean e') = Inr f'
     \<and> age_mean e' = Some (Some (643 / 18))
     \<and> purchase_mean e' = Some (Some 7042.6)
     \<and> getitem f' ''age''
         = Inr (F64 [Some 25, Some 30, Some 28, Some 35, Some 25, Some 30, Some 28, Some 40,
                     Some 22, Some 150, Some 28, Some 33, Some (643 / 18), Some 29, Some 31,
                     Some 27, Some 26, Some (643 / 18), Some 32, Some 24])
     \<and> list_all (\<lambda>n. ebind (getitem f' n) (\<lambda>col. Inr (isnull_sum col)) = Inr 0)
          [''age'', ''city'', ''purchase_amount'', ''shirt_size'']"
proof -
  have ma: "sum_list (dropna (floats_of (getitem table_dedup ''age'')))
      / real (length (dropna (floats_of (getitem table_dedup ''age'')))) = 643 / 18"
    unfolding age_table_dedup by (simp add: dropna_def)
  have mp: "sum_list (dropna (floats_of (getitem table_dedup ''purchase_amount'')))
      / real (length (dropna (floats_of (getitem table_dedup ''purchase_amount'')))) = 7042.6"
    unfolding purchase_table_dedup by (simp add: dropna_def)
  have fa: "fill (643 / 18) (floats_of (getitem table_dedup ''age''))
      = [Some 25, Some 30, Some 28, Some 35, Some 25, Some 30, Some 28, Some 40,
         Some 22, Some 150, Some 28, Some 33, Some (643 / 18), Some 29, Some 31,
         Some 27, Some 26, Some (643 / 18), Some 32, Some 24]"
    unfolding age_table_dedup by (simp add: fill_def)
  from numeric_imputation[of state2 3 table_dedup
       "floats_of (getitem table_dedup ''age'')" "strings_of (getitem table_dedup ''city'')"
       "floats_of (getitem table_dedup ''purchase_amount'')"
       "strings_of (getitem table_dedup ''shirt_size'')" parse_decimal]
     load_state2 ready_table_dedup
  show ?thesis
    unfolding ma mp fa by blast
qed

text \<open>
  Claim C3, as stated, fails on the script's own size column: after duplicate
  elimination Small and Medium both occur five times, Small is met first, and the
  script fills the missing sizes with Medium.
\<close>

theorem mode_tie_break_counterexample:
  "script_upto parse_decimal 3 = Inr state3 \<and> size_mode state3 = Some ''Medium''
   \<and> working_table parse_decimal 2 = Inr table_dedup
   \<and> ebind (getitem table_dedup ''shirt_size'')
        (\<lambda>col. case col of Obj xs \<Rightarrow> Inr (mode0 xs, first_encountered_mode xs)
                          | _ \<Rightarrow> Inl TypeError)
       = Inr (Inr ''Medium'', Inr ''Small'')"
proof -
  have "size_mode state3 = Some ''Medium''"
    by (simp add: state3_def empty_env_def)
  moreover have "ebind (getitem table_dedup ''shirt_size'')
        (\<lambda>col. case col of Obj xs \<Rightarrow> Inr (mode0 xs, first_encountered_mode xs)
                          | _ \<Rightarrow> Inl TypeError)
       = Inr (Inr ''Medium'', Inr ''Small'')"
    by (simp add: table_dedup_def getitem_def mode0_def first_encountered_mode_def modes_def
        max_count_def unique_def dropna_def)
  ultimately show ?thesis
    using script_upto_3 working_table_2 by blast
qed

text \<open>
  Claim C3, amended. Problem 3 substitutes in the city and in the size column the first
  entry of the library's mode. That value is a most frequent present value of the
  column, and when several values share the largest count it is the least of them in
  ascending lexicographic order.
\<close>

theorem categorical_imputation:
  "(load e (df_clean e) = Inr (r, f) \<and> ready_for_imputation f a c p s \<longrightarrow>
      (\<exists>e' f' mc ms. problem3 e = Inr e' \<and> deref e' (df_clean e') = Inr f'
         \<and> mode0 c = Inr mc \<and> mode0 s = Inr ms
         \<and> city_mode e' = Some mc \<and> size_mode e' = Some ms
         \<and> getitem f' ''city'' = Inr (Obj (fill mc c))
         \<and> getitem f' ''shirt_size'' = Inr (Obj (fill ms s))))
   \<and> (mode0 xs = Inr m \<longrightarrow>
        m \<in> set (dropna xs)
        \<and> (\<forall>v. count_list (dropna xs) v \<le> count_list (dropna xs) m)
        \<and> (\<forall>v. v \<in> set (dropna xs) \<and> count_list (dropna xs) v = count_list (dropna xs) m
               \<longrightarrow> m \<le> v))"
proof -
  have "\<exists>e' f' mc ms. problem3 e = Inr e' \<and> deref e' (df_clean e') = Inr f'
         \<and> mode0 c = Inr mc \<and> mode0 s = Inr ms
         \<and> city_mode e' = Some mc \<and> size_mode e' = Some ms
         \<and> getitem f' ''city'' = Inr (Obj (fill mc c))
         \<and> getitem f' ''shirt_size'' = Inr (Obj (fill ms s))"
    if ld: "load e (df_clean e) = Inr (r, f)" and rd: "ready_for_imputation f a c p s"
  proof -
    from rd have h: "wf_frame f" "getitem f ''age'' = Inr (F64 a)"
      "getitem f ''city'' = Inr (Obj c)" "getitem f ''purchase_amount'' = Inr (F64 p)"
      "getitem f ''shirt_size'' = Inr (Obj s)"
      "dropna a \<noteq> []" "dropna c \<noteq> []" "dropna p \<noteq> []" "dropna s \<noteq> []"
      by (simp_all add: ready_for_imputation_def)
    from problem3_result[OF ld h] show ?thesis
      by blast
  qed
  moreover have "m \<in> set (dropna xs)
        \<and> (\<forall>v. count_list (dropna xs) v \<le> count_list (dropna xs) m)
        \<and> (\<forall>v. v \<in> set (dropna xs) \<and> count_list (dropna xs) v = count_list (dropna xs) m
               \<longrightarrow> m \<le> v)" if "mode0 xs = Inr m"
    using mode0_properties[OF that] by blast
  ultimately show ?thesis
    by blast
qed

theorem categorical_imputation_witness:
  "\<exists>e' f'. problem3 state2 = Inr e' \<and> deref e' (df_clean e') = Inr f'
     \<and> city_mode e' = Some ''Bangalore'' \<and> size_mode e' = Some ''Medium''
     \<and> getitem f' ''city''
         = Inr (Obj (fill ''Bangalore'' (strings_of (getitem table_dedup ''city''))))
     \<and> getitem f' ''shirt_size''
         = Inr (Obj (fill ''Medium'' (strings_of (getitem table_dedup ''shirt_size''))))"
proof -
  from categorical_imputation[of state2 3 table_dedup
       "floats_of (getitem table_dedup ''age'')" "strings_of (getitem table_dedup ''city'')"
       "floats_of (getitem table_dedup ''purchase_amount'')"
       "strings_of (getitem table_dedup ''shirt_size'')"]
     load_state2 ready_table_dedup
  show ?thesis
    unfolding mode0_city_table_dedup mode0_size_table_dedup by blast
qed

section \<open>The figures of the run\<close>

text \<open>
  Claim C1. The run of the script on its data, evaluated. After the six cleaning stages
  the working table has 20 rows and no missing cell in the age, city, purchase-amount
  and size columns. The mean substituted for the missing ages is 643/18 (about 35.72),
  not 29.45; the mean substituted for the missing purchase amounts is 7042.6, not
  1445.33; the limits of the purchase amount are -7720.15 and 15900.25, and two purchase
  amounts are capped at 15900.25, above 2551.77; the upper limit of the age is 43.625,
  not 42.5, and the age 150 is capped at 43.625. The figures 29.45, 1445.33,
  348.23 to 2551.77 and 42.5 are those of the summary that the script prints at lines
  409 to 420.
\<close>

theorem documented_figures:
  "working_table parse_decimal 6 = Inr table_capped
   \<and> nrows table_capped = 20
   \<and> map (\<lambda>n. ebind (getitem table_capped n) (\<lambda>c. Inr (isnull_sum c)))
         [''age'', ''city'', ''purchase_amount'', ''shirt_size'']
       = [Inr 0, Inr 0, Inr 0, Inr 0]
   \<and> ebind (script_upto parse_decimal 6) (\<lambda>e. Inr (age_mean e, purchase_mean e))
       = Inr (Some (Some (643 / 18)), Some (Some 7042.6))
   \<and> ebind (script_upto parse_decimal 6) (\<lambda>e. Inr (lower_limit e, upper_limit e))
       = Inr (Some (Some (- 7720.15)), Some (Some 15900.25))
   \<and> ebind (script_upto parse_decimal 6) (\<lambda>e. Inr (lower_limit_age e, upper_limit_age e))
       = Inr (Some (Some 16.625), Some (Some 43.625))
   \<and> ebind (getitem table_capped ''purchase_amount'') (\<lambda>c. Inr (cells c ! 9)) = Inr (F (Some 15900.25))
   \<and> ebind (getitem table_capped ''age'') (\<lambda>c. Inr (cells c ! 9)) = Inr (F (Some 43.625))
   \<and> \<bar>643 / 18 - 29.45\<bar> > (6::real)
   \<and> \<bar>7042.6 - 1445.33\<bar> > (5597::real)
   \<and> (15900.25::real) > 2551.77 + 0.01
   \<and> (43.625::real) > 42.5"
proof -
  have a: "map (\<lambda>n. ebind (getitem table_capped n) (\<lambda>c. Inr (isnull_sum c)))
         [''age'', ''city'', ''purchase_amount'', ''shirt_size'']
       = [Inr 0, Inr 0, Inr 0, Inr 0]"
    by (simp add: table_capped_def getitem_def)
  have b: "ebind (getitem table_capped ''purchase_amount'') (\<lambda>c. Inr (cells c ! 9)) = Inr (F (Some 15900.25))"
    by (simp add: table_capped_def getitem_def)
  have c: "ebind (getitem table_capped ''age'') (\<lambda>c. Inr (cells c ! 9)) = Inr (F (Some 43.625))"
    by (simp add: table_capped_def getitem_def)
  have d: "nrows table_capped = 20"
    by (simp add: table_capped_def nrows_def)
  have e: "ebind (script_upto parse_decimal 6) (\<lambda>e. Inr (age_mean e, purchase_mean e))
       = Inr (Some (Some (643 / 18)), Some (Some 7042.6))"
    unfolding script_upto_6 by (simp add: state6_def empty_env_def)
  have f: "ebind (script_upto parse_decimal 6) (\<lambda>e. Inr (lower_limit e, upper_limit e))
       = Inr (Some (Some (- 7720.15)), Some (Some 15900.25))"
    unfolding script_upto_6 by (simp add: state6_def empty_env_def)
  have g: "ebind (script_upto parse_decimal 6) (\<lambda>e. Inr (lower_limit_age e, upper_limit_age e))
       = Inr (Some (Some 16.625), Some (Some 43.625))"
    unfolding script_upto_6 by (simp add: state6_def empty_env_def)
  have h: "\<bar>643 / 18 - 29.45\<bar> > (6::real) \<and> \<bar>7042.6 - 1445.33\<bar> > (5597::real)
     \<and> (15900.25::real) > 2551.77 + 0.01 \<and> (43.625::real) > 42.5"
    by simp
  show ?thesis
    using working_table_6 a b c d e f g h by blast
qed

section \<open>Quantiles and capping\<close>

lemma quantile_position:
  fixes q :: real and n :: nat
  assumes "0 \<le> q" "q \<le> 1" "0 < n"
  defines "pos \<equiv> q * real (n - 1)"
  shows "nat \<lfloor>pos\<rfloor> \<le> n - 1" and "real (nat \<lfloor>pos\<rfloor>) \<le> pos" and "pos < real (nat \<lfloor>pos\<rfloor>) + 1"
proof -
  have p0: "0 \<le> pos" using assms by (simp add: pos_def)
  have p1: "pos \<le> real (n - 1)"
    using assms by (simp add: pos_def mult_left_le_one_le)
  have fl: "0 \<le> \<lfloor>pos\<rfloor>" using p0 by simp
  then have eq: "real (nat \<lfloor>pos\<rfloor>) = of_int \<lfloor>pos\<rfloor>" by simp
  show "real (nat \<lfloor>pos\<rfloor>) \<le> pos" unfolding eq by (rule of_int_floor_le)
  show "pos < real (nat \<lfloor>pos\<rfloor>) + 1" unfolding eq by linarith
  have "\<lfloor>pos\<rfloor> \<le> int (n - 1)"
    using p1 by (metis floor_mono floor_of_nat)
  then show "nat \<lfloor>pos\<rfloor> \<le> n - 1" by linarith
qed

lemma quantile_sorted_between:
  assumes s: "sorted v" and ne: "v \<noteq> []" and q: "0 \<le> q" "q \<le> 1"
  defines "lo \<equiv> nat \<lfloor>q * real (length v - 1)\<rfloor>"
  shows "v ! lo \<le> quantile_sorted v q"
    and "quantile_sorted v q \<le> v ! min (lo + 1) (length v - 1)"
proof -
  define n where "n = length v"
  define pos where "pos = q * real (n - 1)"
  define hi where "hi = min (lo + 1) (n - 1)"
  have n: "0 < n" using ne by (simp add: n_def)
  have lo: "lo = nat \<lfloor>pos\<rfloor>" by (simp add: lo_def pos_def n_def)
  note P = quantile_position[OF q n, folded pos_def, folded lo]
  have Q: "quantile_sorted v q = v ! lo + (v ! hi - v ! lo) * (pos - real lo)"
    by (simp add: quantile_sorted_def Let_def lo_def hi_def pos_def n_def)
  have "hi \<le> n - 1" by (simp add: hi_def)
  then have hl: "hi < length v" using n unfolding n_def by linarith
  have "lo \<le> hi" using P(1) by (simp add: hi_def)
  then have d: "v ! lo \<le> v ! hi" using s hl by (simp add: sorted_nth_mono)
  have f0: "0 \<le> pos - real lo" using P(2) by simp
  have f1: "pos - real lo \<le> 1" using P(3) by simp
  have "0 \<le> (v ! hi - v ! lo) * (pos - real lo)"
    using d f0 by simp
  then show "v ! lo \<le> quantile_sorted v q" unfolding Q by simp
  have "(v ! hi - v ! lo) * (pos - real lo) \<le> (v ! hi - v ! lo)"
    using d f1 by (simp add: mult_left_le)
  then show "quantile_sorted v q \<le> v ! min (lo + 1) (length v - 1)"
    unfolding Q hi_def n_def by simp
qed

lemma quantile_sorted_mono:
  assumes s: "sorted v" and ne: "v \<noteq> []" and q: "0 \<le> q1" "q1 \<le> q2" "q2 \<le> 1"
  shows "quantile_sorted v q1 \<le> quantile_sorted v q2"
proof -
  define n where "n = length v"
  define p1 where "p1 = q1 * real (n - 1)"
  define p2 where "p2 = q2 * real (n - 1)"
  define l1 where "l1 = nat \<lfloor>p1\<rfloor>"
  define l2 where "l2 = nat \<lfloor>p2\<rfloor>"
  have n: "0 < n" using ne by (simp add: n_def)
  have q1': "q1 \<le> 1" and q2': "0 \<le> q2" using q by simp_all
  have le: "p1 \<le> p2" using q by (simp add: p1_def p2_def mult_right_mono)
  then have l: "l1 \<le> l2" unfolding l1_def l2_def by (intro nat_mono floor_mono)
  note P1 = quantile_position[OF q(1) q1' n, folded p1_def, folded l1_def]
  note P2 = quantile_position[OF q2' q(3) n, folded p2_def, folded l2_def]
  note B1 = quantile_sorted_between[OF s ne q(1) q1', folded n_def, folded p1_def, folded l1_def]
  note B2 = quantile_sorted_between[OF s ne q2' q(3), folded n_def, folded p2_def, folded l2_def]
  show ?thesis
  proof (cases "l1 = l2")
    case True
    define hi where "hi = min (l1 + 1) (n - 1)"
    have Q1: "quantile_sorted v q1 = v ! l1 + (v ! hi - v ! l1) * (p1 - real l1)"
      by (simp add: quantile_sorted_def Let_def l1_def hi_def p1_def n_def)
    have "quantile_sorted v q2
        = v ! l2 + (v ! min (l2 + 1) (n - 1) - v ! l2) * (p2 - real l2)"
      by (simp add: quantile_sorted_def Let_def l2_def p2_def n_def)
    then have Q2: "quantile_sorted v q2 = v ! l1 + (v ! hi - v ! l1) * (p2 - real l1)"
      using True by (simp add: hi_def)
    have "hi \<le> n - 1" by (simp add: hi_def)
    then have hl: "hi < length v" using n unfolding n_def by linarith
    have "l1 \<le> hi" using P1(1) by (simp add: hi_def)
    then have d: "v ! l1 \<le> v ! hi" using s hl by (simp add: sorted_nth_mono)
    have "(v ! hi - v ! l1) * (p1 - real l1) \<le> (v ! hi - v ! l1) * (p2 - real l1)"
      using d le by (intro mult_left_mono) simp_all
    then show ?thesis unfolding Q1 Q2 by simp
  next
    case False
    then have "l1 + 1 \<le> l2" using l by simp
    then have "min (l1 + 1) (n - 1) \<le> l2" by simp
    moreover have "l2 < length v" using P2(1) n unfolding n_def by linarith
    ultimately have "v ! min (l1 + 1) (n - 1) \<le> v ! l2"
      using s by (simp add: sorted_nth_mono)
    then show ?thesis using B1(2) B2(1) by linarith
  qed
qed

lemma quartiles_ordered:
  assumes "vs \<noteq> []"
  shows "quantile_sorted (sort vs) 0.25 \<le> quantile_sorted (sort vs) 0.75"
proof -
  have "sort vs \<noteq> []" using assms by (metis length_sort length_0_conv)
  then show ?thesis
    by (intro quantile_sorted_mono) simp_all
qed

lemma lower_le_upper:
  assumes "vs \<noteq> []"
  shows "lower_of vs \<le> upper_of vs"
proof -
  define Q1 where "Q1 = quantile_sorted (sort vs) 0.25"
  define Q3 where "Q3 = quantile_sorted (sort vs) 0.75"
  have "Q1 \<le> Q3"
    using quartiles_ordered[OF assms] by (simp add: Q1_def Q3_def)
  then have "0 \<le> 1.5 * (Q3 - Q1)" by simp
  then have "Q1 - 1.5 * (Q3 - Q1) \<le> Q3 + 1.5 * (Q3 - Q1)"
    using \<open>Q1 \<le> Q3\<close> by linarith
  then show ?thesis
    by (simp add: lower_of_def upper_of_def Let_def Q1_def Q3_def)
qed

lemma iqr_limits_F64:
  "dropna xs \<noteq> [] \<Longrightarrow>
   iqr_limits (F64 xs) = Inr (Some (lower_of (dropna xs)), Some (upper_of (dropna xs)))"
  by (simp add: iqr_limits_def quantile_present_def fsub_def fadd_def fmul_def
      lower_of_def upper_of_def Let_def)

lemma iqr_limits_F64_empty:
  "dropna xs = [] \<Longrightarrow> iqr_limits (F64 xs) = Inr (None, None)"
  by (simp add: iqr_limits_def quantile_present_def fsub_def fadd_def fmul_def)

lemma cap_Some:
  "cap (Some lo) (Some hi) (Some y) = Some (if y < lo then lo else if hi < y then hi else y)"
  by (simp add: cap_def flt_def)

lemma cap_None [simp]: "cap lower upper None = None"
  by (simp add: cap_def flt_def split: option.splits)

lemma cap_no_limits [simp]: "cap None None x = x"
  by (simp add: cap_def flt_def split: option.splits)

lemma cap_within: "lo \<le> hi \<Longrightarrow> in_range lo hi (cap (Some lo) (Some hi) x)"
  by (cases x) (auto simp: in_range_def cap_Some)

lemma cap_fixed: "in_range lo hi x \<Longrightarrow> cap (Some lo) (Some hi) x = x"
  by (cases x) (auto simp: in_range_def cap_Some)

lemma cap_idem:
  "lo \<le> hi \<Longrightarrow> cap (Some lo) (Some hi) (cap (Some lo) (Some hi) x) = cap (Some lo) (Some hi) x"
  by (intro cap_fixed cap_within)

lemma list_all_within_cap:
  "lo \<le> hi \<Longrightarrow> list_all (in_range lo hi) (map (cap (Some lo) (Some hi)) xs)"
  by (simp add: list_all_iff cap_within)

lemma wf_setitem:
  assumes wf: "wf_frame f" and ne: "f \<noteq> []" and len: "slen c = nrows f"
    and set: "setitem f n c = Inr g"
  shows "wf_frame g"
proof -
  have nr: "nrows g = nrows f" using set ne by (rule nrows_setitem)
  have all: "\<forall>(k, s)\<in>set f. slen s = nrows f"
    using wf by (simp add: wf_frame_def list_all_iff)
  have "\<forall>(k, s)\<in>set g. slen s = nrows f"
  proof (cases "n \<in> set (columns f)")
    case True
    then have "g = map (\<lambda>(k, s). if k = n then (k, c) else (k, s)) f"
      using set by (auto simp: setitem_def split: if_splits)
    then show ?thesis using all len by (auto split: if_splits)
  next
    case False
    then have "g = f @ [(n, c)]"
      using set by (auto simp: setitem_def split: if_splits)
    then show ?thesis using all len by auto
  qed
  then show ?thesis
    by (simp add: wf_frame_def list_all_iff nr)
qed

lemma cap_column_result:
  assumes r: "r < length (heap e)" and f: "heap e ! r = f"
    and wf: "wf_frame f"
    and col: "getitem f n = Inr (F64 xs)"
    and pres: "dropna xs \<noteq> []"
  shows "\<exists>g. setitem f n (F64 (map (cap (Some (lower_of (dropna xs)))
                                          (Some (upper_of (dropna xs)))) xs)) = Inr g
      \<and> wf_frame g \<and> nrows g = nrows f
      \<and> getitem g n = Inr (F64 (map (cap (Some (lower_of (dropna xs)))
                                          (Some (upper_of (dropna xs)))) xs))
      \<and> (\<forall>m. m \<noteq> n \<longrightarrow> getitem g m = getitem f m)
      \<and> store_column e r n (F64 (map (cap (Some (lower_of (dropna xs)))
                                            (Some (upper_of (dropna xs)))) xs))
          = Inr (e\<lparr>heap := (heap e)[r := g]\<rparr>)"
proof -
  define c where "c = F64 (map (cap (Some (lower_of (dropna xs)))
                                    (Some (upper_of (dropna xs)))) xs)"
  have len: "slen c = nrows f" using wf_frame_slen[OF wf col] by (simp add: c_def)
  have ne: "f \<noteq> []" using col by (rule getitem_nonempty)
  obtain g where g: "setitem f n c = Inr g"
    using setitem_succeeds[OF len] by blast
  have "wf_frame g" using wf ne len g by (rule wf_setitem)
  moreover have "nrows g = nrows f" using g ne by (rule nrows_setitem)
  moreover have "getitem g n = Inr c" using g by (rule getitem_setitem_same)
  moreover have "\<forall>m. m \<noteq> n \<longrightarrow> getitem g m = getitem f m"
    using getitem_setitem_other[OF g] by blast
  moreover have "store_column e r n c = Inr (e\<lparr>heap := (heap e)[r := g]\<rparr>)"
    using r g f by (simp add: store_column_eq)
  ultimately show ?thesis
    using g unfolding c_def by blast
qed

lemma problem5_result:
  assumes ld: "load e (df_clean e) = Inr (r, f)"
    and wf: "wf_frame f"
    and col: "getitem f ''purchase_amount'' = Inr (F64 p)"
    and pres: "dropna p \<noteq> []"
  shows "\<exists>e' f'. problem5 e = Inr e' \<and> load e' (df_clean e') = Inr (r, f')
      \<and> wf_frame f' \<and> nrows f' = nrows f
      \<and> lower_limit e' = Some (Some (lower_of (dropna p)))
      \<and> upper_limit e' = Some (Some (upper_of (dropna p)))
      \<and> getitem f' ''purchase_amount''
          = Inr (F64 (map (cap (Some (lower_of (dropna p))) (Some (upper_of (dropna p)))) p))
      \<and> (\<forall>m. m \<noteq> ''purchase_amount'' \<longrightarrow> getitem f' m = getitem f m)"
proof -
  from ld have d: "df_clean e = Some r" and r: "r < length (heap e)" and f: "heap e ! r = f"
    by (simp_all add: load_Inr_iff)
  define e0 where "e0 = e\<lparr>lower_limit := Some (Some (lower_of (dropna p))),
                         upper_limit := Some (Some (upper_of (dropna p)))\<rparr>"
  have r0: "r < length (heap e0)" and f0: "heap e0 ! r = f"
    using r f by (simp_all add: e0_def)
  from cap_column_result[OF r0 f0 wf col pres] obtain g where
    g: "wf_frame g" "nrows g = nrows f"
      "getitem g ''purchase_amount''
        = Inr (F64 (map (cap (Some (lower_of (dropna p))) (Some (upper_of (dropna p)))) p))"
      "\<forall>m. m \<noteq> ''purchase_amount'' \<longrightarrow> getitem g m = getitem f m"
      "store_column e0 r ''purchase_amount''
         (F64 (map (cap (Some (lower_of (dropna p))) (Some (upper_of (dropna p)))) p))
       = Inr (e0\<lparr>heap := (heap e0)[r := g]\<rparr>)"
    by blast
  have run: "problem5 e = Inr (e0\<lparr>heap := (heap e0)[r := g]\<rparr>)"
    using ld col iqr_limits_F64[OF pres] g(5)
    by (simp add: problem5_def e0_def)
  have "load (e0\<lparr>heap := (heap e0)[r := g]\<rparr>) (df_clean (e0\<lparr>heap := (heap e0)[r := g]\<rparr>))
      = Inr (r, g)"
    using d r by (simp add: e0_def load_def)
  then show ?thesis
    using run g(1-4) by (intro exI[of _ "e0\<lparr>heap := (heap e0)[r := g]\<rparr>"] exI[of _ g])
      (simp add: e0_def)
qed

lemma problem6_result:
  assumes ld: "load e (df_clean e) = Inr (r, f)"
    and wf: "wf_frame f"
    and col: "getitem f ''age'' = Inr (F64 a)"
    and pres: "dropna a \<noteq> []"
  shows "\<exists>e' f'. problem6 e = Inr e' \<and> load e' (df_clean e') = Inr (r, f')
      \<and> wf_frame f' \<and> nrows f' = nrows f
      \<and> lower_limit_age e' = Some (Some (lower_of (dropna a)))
      \<and> upper_limit_age e' = Some (Some (upper_of (dropna a)))
      \<and> lower_limit e' = lower_limit e \<and> upper_limit e' = upper_limit e
      \<and> getitem f' ''age''
          = Inr (F64 (map (cap (Some (lower_of (dropna a))) (Some (upper_of (dropna a)))) a))
      \<and> (\<forall>m. m \<noteq> ''age'' \<longrightarrow> getitem f' m = getitem f m)"
proof -
  from ld have d: "df_clean e = Some r" and r: "r < length (heap e)" and f: "heap e ! r = f"
    by (simp_all add: load_Inr_iff)
  define e0 where "e0 = e\<lparr>lower_limit_age := Some (Some (lower_of (dropna a))),
                         upper_limit_age := Some (Some (upper_of (dropna a)))\<rparr>"
  have r0: "r < length (heap e0)" and f0: "heap e0 ! r = f"
    using r f by (simp_all add: e0_def)
  from cap_column_result[OF r0 f0 wf col pres] obtain g where
    g: "wf_frame g" "nrows g = nrows f"
      "getitem g ''age''
        = Inr (F64 (map (cap (Some (lower_of (dropna a))) (Some (upper_of (dropna a)))) a))"
      "\<forall>m. m \<noteq> ''age'' \<longrightarrow> getitem g m = getitem f m"
      "store_column e0 r ''age''
         (F64 (map (cap (Some (lower_of (dropna a))) (Some (upper_of (dropna a)))) a))
       = Inr (e0\<lparr>heap := (heap e0)[r := g]\<rparr>)"
    by blast
  have run: "problem6 e = Inr (e0\<lparr>heap := (heap e0)[r := g]\<rparr>)"
    using ld col iqr_limits_F64[OF pres] g(5)
    by (simp add: problem6_def e0_def)
  have "load (e0\<lparr>heap := (heap e0)[r := g]\<rparr>) (df_clean (e0\<lparr>heap := (heap e0)[r := g]\<rparr>))
      = Inr (r, g)"
    using d r by (simp add: e0_def load_def)
  then show ?thesis
    using run g(1-4) by (intro exI[of _ "e0\<lparr>heap := (heap e0)[r := g]\<rparr>"] exI[of _ g])
      (simp add: e0_def)
qed

lemma purchase_table_pruned:
  "floats_of (getitem table_pruned ''purchase_amount'')
   = [Some 1200.5, Some 800.3, Some 7042.6, Some 1500, Some 1200.5, Some 800.3, Some 7042.6,
      Some 2200, Some 950, Some 50000, Some 1100, Some 7042.6, Some 1300, Some 1450,
      Some 1800, Some 1250, Some 7042.6, Some 980, Some 1150, Some 45000]"
  by (simp add: table_pruned_def getitem_def)

lemma age_table_pruned:
  "floats_of (getitem table_pruned ''age'')
   = [Some 25, Some 30, Some 28, Some 35, Some 25, Some 30, Some 28, Some 40, Some 22,
      Some 150, Some 28, Some 33, Some (643 / 18), Some 29, Some 31, Some 27, Some 26,
      Some (643 / 18), Some 32, Some 24]"
  by (simp add: table_pruned_def getitem_def)

lemma ready_table_pruned:
  "ready_for_capping table_pruned (floats_of (getitem table_pruned ''purchase_amount''))
     (floats_of (getitem table_pruned ''age''))"
  by (simp add: ready_for_capping_def wf_frame_def table_pruned_def nrows_def getitem_def
      dropna_def)

lemma load_state4: "load state4 (df_clean state4) = Inr (4, table_pruned)"
  by (simp add: state4_def empty_env_def load_def)

lemma limits_purchase_table_pruned:
  "lower_of (dropna (floats_of (getitem table_pruned ''purchase_amount''))) = - 7720.15"
  "upper_of (dropna (floats_of (getitem table_pruned ''purchase_amount''))) = 15900.25"
  unfolding purchase_table_pruned
  by (simp_all add: lower_of_def upper_of_def quantile_sorted_def dropna_def)

lemma limits_age_table_pruned:
  "lower_of (dropna (floats_of (getitem table_pruned ''age''))) = 16.625"
  "upper_of (dropna (floats_of (getitem table_pruned ''age''))) = 43.625"
  unfolding age_table_pruned
  by (simp_all add: lower_of_def upper_of_def quantile_sorted_def dropna_def)

text \<open>
  Claim C4. On a well-formed working table whose purchase-amount and age columns are
  float columns with a present value each, Problem 5 and then Problem 6 complete. Each
  computes Q1 and Q3 of its column by linear interpolation between the neighbouring
  sorted values, takes lower = Q1 - 1.5 (Q3 - Q1) and upper = Q3 + 1.5 (Q3 - Q1), and
  replaces a value below lower by lower and a value above upper by upper, leaving the
  other cells and the number of rows as they are. The limits of the age are computed
  from the age column of the state that the purchase-amount capping leaves. Afterwards
  every value of either column lies between that column's limits.
\<close>

theorem outlier_capping:
  "(load e (df_clean e) = Inr (r, f) \<and> ready_for_capping f p a \<longrightarrow>
     (\<exists>e5 f5 e6 f6.
        problem5 e = Inr e5 \<and> deref e5 (df_clean e5) = Inr f5
      \<and> problem6 e5 = Inr e6 \<and> deref e6 (df_clean e6) = Inr f6
      \<and> nrows f5 = nrows f \<and> nrows f6 = nrows f
      \<and> lower_limit e6 = Some (Some (lower_of (dropna p)))
      \<and> upper_limit e6 = Some (Some (upper_of (dropna p)))
      \<and> getitem f5 ''age'' = Inr (F64 a)
      \<and> lower_limit_age e6 = Some (Some (lower_of (dropna a)))
      \<and> upper_limit_age e6 = Some (Some (upper_of (dropna a)))
      \<and> getitem f6 ''purchase_amount''
          = Inr (F64 (map (cap (Some (lower_of (dropna p))) (Some (upper_of (dropna p)))) p))
      \<and> getitem f6 ''age''
          = Inr (F64 (map (cap (Some (lower_of (dropna a))) (Some (upper_of (dropna a)))) a))
      \<and> list_all (in_range (lower_of (dropna p)) (upper_of (dropna p)))
           (map (cap (Some (lower_of (dropna p))) (Some (upper_of (dropna p)))) p)
      \<and> list_all (in_range (lower_of (dropna a)) (upper_of (dropna a)))
           (map (cap (Some (lower_of (dropna a))) (Some (upper_of (dropna a)))) a)))
   \<and> cap (Some lo) (Some hi) (Some y) = Some (if y < lo then lo else if hi < y then hi else y)
   \<and> cap (Some lo) (Some hi) None = None
   \<and> lower_of vs = quantile_sorted (sort vs) 0.25
        - 1.5 * (quantile_sorted (sort vs) 0.75 - quantile_sorted (sort vs) 0.25)
   \<and> upper_of vs = quantile_sorted (sort vs) 0.75
        + 1.5 * (quantile_sorted (sort vs) 0.75 - quantile_sorted (sort vs) 0.25)
   \<and> script_upto parse 5 = ebind (script_upto parse 4) problem5
   \<and> script_upto parse 6 = ebind (script_upto parse 5) problem6"
proof -
  have order: "script_upto parse 5 = ebind (script_upto parse 4) problem5"
    "script_upto parse 6 = ebind (script_upto parse 5) problem6"
    using script_upto_Suc[of 4 parse] script_upto_Suc[of 5 parse]
    by (simp_all add: length_stages stages_def cleaning_stages_def eval_nat_numeral)
  have formulas: "lower_of vs = quantile_sorted (sort vs) 0.25
        - 1.5 * (quantile_sorted (sort vs) 0.75 - quantile_sorted (sort vs) 0.25)"
    "upper_of vs = quantile_sorted (sort vs) 0.75
        + 1.5 * (quantile_sorted (sort vs) 0.75 - quantile_sorted (sort vs) 0.25)"
    by (simp_all add: lower_of_def upper_of_def Let_def)
  have main: "\<exists>e5 f5 e6 f6.
        problem5 e = Inr e5 \<and> deref e5 (df_clean e5) = Inr f5
      \<and> problem6 e5 = Inr e6 \<and> deref e6 (df_clean e6) = Inr f6
      \<and> nrows f5 = nrows f \<and> nrows f6 = nrows f
      \<and> lower_limit e6 = Some (Some (lower_of (dropna p)))
      \<and> upper_limit e6 = Some (Some (upper_of (dropna p)))
      \<and> getitem f5 ''age'' = Inr (F64 a)
      \<and> lower_limit_age e6 = Some (Some (lower_of (dropna a)))
      \<and> upper_limit_age e6 = Some (Some (upper_of (dropna a)))
      \<and> getitem f6 ''purchase_amount''
          = Inr (F64 (map (cap (Some (lower_of (dropna p))) (Some (upper_of (dropna p)))) p))
      \<and> getitem f6 ''age''
          = Inr (F64 (map (cap (Some (lower_of (dropna a))) (Some (upper_of (dropna a)))) a))
      \<and> list_all (in_range (lower_of (dropna p)) (upper_of (dropna p)))
           (map (cap (Some (lower_of (dropna p))) (Some (upper_of (dropna p)))) p)
      \<and> list_all (in_range (lower_of (dropna a)) (upper_of (dropna a)))
           (map (cap (Some (lower_of (dropna a))) (Some (upper_of (dropna a)))) a)"
    if ld: "load e (df_clean e) = Inr (r, f)" and rd: "ready_for_capping f p a"
  proof -
    from rd have wf: "wf_frame f" and pc: "getitem f ''purchase_amount'' = Inr (F64 p)"
      and ac: "getitem f ''age'' = Inr (F64 a)"
      and pp: "dropna p \<noteq> []" and pa: "dropna a \<noteq> []"
      by (simp_all add: ready_for_capping_def)
    from problem5_result[OF ld wf pc pp] obtain e5 f5 where
      s5: "problem5 e = Inr e5" "load e5 (df_clean e5) = Inr (r, f5)" "wf_frame f5"
        "nrows f5 = nrows f"
        "lower_limit e5 = Some (Some (lower_of (dropna p)))"
        "upper_limit e5 = Some (Some (upper_of (dropna p)))"
        "getitem f5 ''purchase_amount''
          = Inr (F64 (map (cap (Some (lower_of (dropna p))) (Some (upper_of (dropna p)))) p))"
        "\<forall>m. m \<noteq> ''purchase_amount'' \<longrightarrow> getitem f5 m = getitem f m"
      by blast
    have a5: "getitem f5 ''age'' = Inr (F64 a)"
      using s5(8) ac by simp
    from problem6_result[OF s5(2) s5(3) a5 pa] obtain e6 f6 where
      s6: "problem6 e5 = Inr e6" "load e6 (df_clean e6) = Inr (r, f6)"
        "nrows f6 = nrows f5"
        "lower_limit_age e6 = Some (Some (lower_of (dropna a)))"
        "upper_limit_age e6 = Some (Some (upper_of (dropna a)))"
        "lower_limit e6 = lower_limit e5" "upper_limit e6 = upper_limit e5"
        "getitem f6 ''age''
          = Inr (F64 (map (cap (Some (lower_of (dropna a))) (Some (upper_of (dropna a)))) a))"
        "\<forall>m. m \<noteq> ''age'' \<longrightarrow> getitem f6 m = getitem f5 m"
      by blast
    have p6: "getitem f6 ''purchase_amount''
          = Inr (F64 (map (cap (Some (lower_of (dropna p))) (Some (upper_of (dropna p)))) p))"
      using s6(9) s5(7) by simp
    have d5: "deref e5 (df_clean e5) = Inr f5" using s5(2) by (simp add: deref_def)
    have d6: "deref e6 (df_clean e6) = Inr f6" using s6(2) by (simp add: deref_def)
    have rp: "list_all (in_range (lower_of (dropna p)) (upper_of (dropna p)))
           (map (cap (Some (lower_of (dropna p))) (Some (upper_of (dropna p)))) p)"
      using lower_le_upper[OF pp] by (rule list_all_within_cap)
    have ra: "list_all (in_range (lower_of (dropna a)) (upper_of (dropna a)))
           (map (cap (Some (lower_of (dropna a))) (Some (upper_of (dropna a)))) a)"
      using lower_le_upper[OF pa] by (rule list_all_within_cap)
    show ?thesis
      using s5(1) d5 s6(1) d6 s5(4) s6(3) s5(5,6) s6(4-7) a5 p6 s6(8) rp ra
      by (intro exI[of _ e5] exI[of _ f5] exI[of _ e6] exI[of _ f6]) simp
  qed
  show ?thesis
    using main order formulas cap_Some[of lo hi y] by simp
qed

theorem outlier_capping_witness:
  "\<exists>e5 f5 e6 f6.
        problem5 state4 = Inr e5 \<and> deref e5 (df_clean e5) = Inr f5
      \<and> problem6 e5 = Inr e6 \<and> deref e6 (df_clean e6) = Inr f6
      \<and> nrows f6 = 20
      \<and> lower_limit e6 = Some (Some (- 7720.15)) \<and> upper_limit e6 = Some (Some 15900.25)
      \<and> lower_limit_age e6 = Some (Some 16.625) \<and> upper_limit_age e6 = Some (Some 43.625)
      \<and> getitem f6 ''purchase_amount''
          = Inr (F64 (map (cap (Some (- 7720.15)) (Some 15900.25))
                       (floats_of (getitem table_pruned ''purchase_amount''))))
      \<and> getitem f6 ''age''
          = Inr (F64 (map (cap (Some 16.625) (Some 43.625))
                       (floats_of (getitem table_pruned ''age''))))"
proof -
  have n: "nrows table_pruned = 20"
    by (simp add: table_pruned_def nrows_def)
  from outlier_capping[of state4 4 table_pruned
      "floats_of (getitem table_pruned ''purchase_amount'')"
      "floats_of (getitem table_pruned ''age'')"]
    load_state4 ready_table_pruned
  show ?thesis
    unfolding limits_purchase_table_pruned limits_age_table_pruned n by blast
qed

text \<open>
  Claim C8, as stated, fails: on the column 0, 100, 100, 100 the first pass has Q1 = 75
  and Q3 = 100, so the lower limit is 37.5 and 0 becomes 37.5; the second pass has
  Q1 = 84.375, so the lower limit is 60.9375 and 37.5 becomes 60.9375.
\<close>

theorem capping_twice_counterexample:
  "cap_outliers (F64 [Some 0, Some 100, Some 100, Some 100])
     = Inr (F64 [Some 37.5, Some 100, Some 100, Some 100])
   \<and> cap_outliers (F64 [Some 37.5, Some 100, Some 100, Some 100])
     = Inr (F64 [Some 60.9375, Some 100, Some 100, Some 100])
   \<and> ebind (cap_outliers (F64 [Some 0, Some 100, Some 100, Some 100])) cap_outliers
     \<noteq> cap_outliers (F64 [Some 0, Some 100, Some 100, Some 100])"
proof -
  have a: "cap_outliers (F64 [Some 0, Some 100, Some 100, Some 100])
     = Inr (F64 [Some 37.5, Some 100, Some 100, Some 100])"
    by (simp add: cap_outliers_def iqr_limits_def quantile_present_def quantile_sorted_def
        dropna_def fsub_def fadd_def fmul_def cap_def flt_def)
  have b: "cap_outliers (F64 [Some 37.5, Some 100, Some 100, Some 100])
     = Inr (F64 [Some 60.9375, Some 100, Some 100, Some 100])"
    by (simp add: cap_outliers_def iqr_limits_def quantile_present_def quantile_sorted_def
        dropna_def fsub_def fadd_def fmul_def cap_def flt_def)
  have c: "ebind (cap_outliers (F64 [Some 0, Some 100, Some 100, Some 100])) cap_outliers
     = Inr (F64 [Some 60.9375, Some 100, Some 100, Some 100])"
    using b by (simp only: a ebind_Inr)
  have d: "(Inr (F64 [Some 60.9375, Some 100, Some 100, Some 100]) :: error + series)
     \<noteq> Inr (F64 [Some 37.5, Some 100, Some 100, Some 100])"
    by simp
  have "ebind (cap_outliers (F64 [Some 0, Some 100, Some 100, Some 100])) cap_outliers
     \<noteq> cap_outliers (F64 [Some 0, Some 100, Some 100, Some 100])"
    using a c d by metis
  then show ?thesis
    using a b by blast
qed

lemma map_cap_fixed:
  "list_all (in_range lo hi) xs \<Longrightarrow> map (cap (Some lo) (Some hi)) xs = xs"
  by (induction xs) (simp_all add: cap_fixed)

text \<open>
  Claim C8, amended. A second capping pass changes nothing whenever it computes the
  same limits as the first pass did; and a pass changes nothing at all on a column none
  of whose values lies outside its own limits.
\<close>

theorem capping_idempotent_when_stable:
  "(cap_outliers (F64 xs) = Inr c \<and> iqr_limits c = iqr_limits (F64 xs)
      \<longrightarrow> cap_outliers c = Inr c)
   \<and> (dropna xs \<noteq> []
       \<and> list_all (in_range (lower_of (dropna xs)) (upper_of (dropna xs))) xs
      \<longrightarrow> cap_outliers (F64 xs) = Inr (F64 xs))"
proof -
  have stable: "cap_outliers c = Inr c"
    if once: "cap_outliers (F64 xs) = Inr c" and lim: "iqr_limits c = iqr_limits (F64 xs)"
  proof (cases "dropna xs = []")
    case True
    then have c: "c = F64 xs"
      using once by (auto simp: cap_outliers_def iqr_limits_F64_empty map_idI)
    show ?thesis using once by (simp add: c)
  next
    case False
    define lo where "lo = lower_of (dropna xs)"
    define hi where "hi = upper_of (dropna xs)"
    have le: "lo \<le> hi" using lower_le_upper[OF False] by (simp add: lo_def hi_def)
    have l: "iqr_limits (F64 xs) = Inr (Some lo, Some hi)"
      using iqr_limits_F64[OF False] by (simp add: lo_def hi_def)
    then have c: "c = F64 (map (cap (Some lo) (Some hi)) xs)"
      using once by (simp add: cap_outliers_def)
    have "cap_outliers c = Inr (F64 (map (cap (Some lo) (Some hi)) (map (cap (Some lo) (Some hi)) xs)))"
      using lim l by (simp add: cap_outliers_def c)
    also have "map (cap (Some lo) (Some hi)) (map (cap (Some lo) (Some hi)) xs)
        = map (cap (Some lo) (Some hi)) xs"
      using le by (simp add: cap_idem)
    finally show ?thesis by (simp add: c)
  qed
  have fixed: "cap_outliers (F64 xs) = Inr (F64 xs)"
    if ne: "dropna xs \<noteq> []"
      and inr: "list_all (in_range (lower_of (dropna xs)) (upper_of (dropna xs))) xs"
  proof -
    have "map (cap (Some (lower_of (dropna xs))) (Some (upper_of (dropna xs)))) xs = xs"
      using inr by (rule map_cap_fixed)
    then show ?thesis
      by (simp add: cap_outliers_def iqr_limits_F64[OF ne])
  qed
  show ?thesis
    using stable fixed by blast
qed

theorem capping_idempotent_when_stable_witness:
  "cap_outliers (F64 (floats_of (getitem table_pruned ''purchase_amount'')))
     = Inr (F64 (floats_of (getitem table_capped_purchase ''purchase_amount'')))
   \<and> floats_of (getitem table_capped_purchase ''purchase_amount'')
     \<noteq> floats_of (getitem table_pruned ''purchase_amount'')
   \<and> cap_outliers (F64 (floats_of (getitem table_capped_purchase ''purchase_amount'')))
     = Inr (F64 (floats_of (getitem table_capped_purchase ''purchase_amount'')))"
proof -
  have capped: "floats_of (getitem table_capped_purchase ''purchase_amount'')
   = [Some 1200.5, Some 800.3, Some 7042.6, Some 1500, Some 1200.5, Some 800.3, Some 7042.6,
      Some 2200, Some 950, Some 15900.25, Some 1100, Some 7042.6, Some 1300, Some 1450,
      Some 1800, Some 1250, Some 7042.6, Some 980, Some 1150, Some 15900.25]"
    by (simp add: table_capped_purchase_def getitem_def)
  have l1: "iqr_limits (F64 (floats_of (getitem table_pruned ''purchase_amount'')))
      = Inr (Some (- 7720.15), Some 15900.25)"
    using iqr_limits_F64[of "floats_of (getitem table_pruned ''purchase_amount'')"]
      ready_table_pruned limits_purchase_table_pruned
    by (simp add: ready_for_capping_def)
  have once: "cap_outliers (F64 (floats_of (getitem table_pruned ''purchase_amount'')))
     = Inr (F64 (floats_of (getitem table_capped_purchase ''purchase_amount'')))"
    unfolding cap_outliers_def l1 unfolding purchase_table_pruned capped
    by (simp add: cap_def flt_def)
  have l2: "iqr_limits (F64 (floats_of (getitem table_capped_purchase ''purchase_amount'')))
      = Inr (Some (- 7720.15), Some 15900.25)"
    unfolding capped
    by (simp add: iqr_limits_def quantile_present_def quantile_sorted_def dropna_def
        fsub_def fadd_def fmul_def)
  have diff: "floats_of (getitem table_capped_purchase ''purchase_amount'')
     \<noteq> floats_of (getitem table_pruned ''purchase_amount'')"
    unfolding capped purchase_table_pruned by simp
  from capping_idempotent_when_stable[of
      "floats_of (getitem table_pruned ''purchase_amount'')"
      "F64 (floats_of (getitem table_capped_purchase ''purchase_amount''))"]
    once l1 l2 diff
  show ?thesis by simp
qed

section \<open>The original table\<close>

lemma store_column_Inr:
  assumes "store_column e r' n c = Inr e'"
  shows "\<exists>g. e' = e\<lparr>heap := (heap e)[r' := g]\<rparr> \<and> r' < length (heap e)"
  using assms by (auto simp: store_column_def ebind_Inr_iff split: if_splits)

lemma store_column_frame:
  assumes "store_column e r' n c = Inr e'" and "r' \<noteq> r"
  shows "heap e' ! r = heap e ! r" and "length (heap e') = length (heap e)"
    and "df e' = df e" and "df_clean e' = df_clean e"
  using store_column_Inr[OF assms(1)] assms(2) by auto

lemma problem1_frame:
  assumes "problem1 parse e = Inr e'" and "load e (df e) = Inr (r, f)"
  shows "load e' (df e') = Inr (r, f) \<and> df_clean e' \<noteq> df e'"
proof -
  from assms(2) have d: "df e = Some r" and r: "r < length (heap e)" and f: "heap e ! r = f"
    by (simp_all add: load_Inr_iff)
  define e2 where "e2 = e\<lparr>heap := heap e @ [f], df_clean := Some (length (heap e))\<rparr>"
  from assms(1) obtain c1 c2 e3 where
    s1: "store_column e2 (length (heap e)) ''age'' c1 = Inr e3" and
    s2: "store_column e3 (length (heap e)) ''age'' c2 = Inr e'"
    using d r f
    by (auto simp: problem1_def ebind_Inr_iff deref_Inr_iff alloc_def e2_def Let_def)
  have ne: "length (heap e) \<noteq> r" using r by simp
  note a = store_column_frame[OF s1 ne] and b = store_column_frame[OF s2 ne]
  have "heap e' ! r = f" using a(1) b(1) r f by (simp add: e2_def nth_append)
  moreover have "r < length (heap e')" using a(2) b(2) r by (simp add: e2_def)
  moreover have "df e' = Some r" using a(3) b(3) d by (simp add: e2_def)
  moreover have "df_clean e' = Some (length (heap e))" using a(4) b(4) by (simp add: e2_def)
  ultimately show ?thesis using ne by (simp add: load_Inr_iff)
qed

lemma alloc_stage_frame:
  assumes "load e (df e) = Inr (r, f)"
  shows "load (e\<lparr>heap := heap e @ [g], df_clean := Some (length (heap e))\<rparr>)
           (df (e\<lparr>heap := heap e @ [g], df_clean := Some (length (heap e))\<rparr>)) = Inr (r, f)
       \<and> df_clean (e\<lparr>heap := heap e @ [g], df_clean := Some (length (heap e))\<rparr>)
           \<noteq> df (e\<lparr>heap := heap e @ [g], df_clean := Some (length (heap e))\<rparr>)"
  using assms by (auto simp: load_Inr_iff nth_append)

lemma problem2_frame:
  assumes "problem2 e = Inr e'" and "load e (df e) = Inr (r, f)"
  shows "load e' (df e') = Inr (r, f) \<and> df_clean e' \<noteq> df e'"
  using assms(1) alloc_stage_frame[OF assms(2)]
  by (auto simp: problem2_def ebind_Inr_iff alloc_def)

lemma problem4_frame:
  assumes "problem4 e = Inr e'" and "load e (df e) = Inr (r, f)"
  shows "load e' (df e') = Inr (r, f) \<and> df_clean e' \<noteq> df e'"
  using assms(1) alloc_stage_frame[OF assms(2)]
  by (auto simp: problem4_def ebind_Inr_iff alloc_def)

lemma store_at_clean_frame:
  assumes s: "store_column (e0) r' n c = Inr e'"
    and ld: "load e0 (df e0) = Inr (r, f)" and ne: "df_clean e0 \<noteq> df e0"
    and r': "df_clean e0 = Some r'"
  shows "load e' (df e') = Inr (r, f) \<and> df_clean e' \<noteq> df e' \<and> df_clean e' = Some r'"
proof -
  from ld have d: "df e0 = Some r" and r: "r < length (heap e0)" and f: "heap e0 ! r = f"
    by (simp_all add: load_Inr_iff)
  have "r' \<noteq> r" using ne r' d by auto
  note a = store_column_frame[OF s this]
  show ?thesis using a d r f ne r' by (simp add: load_Inr_iff)
qed

lemma problem5_frame:
  assumes "problem5 e = Inr e'" and "load e (df e) = Inr (r, f)" and "df_clean e \<noteq> df e"
  shows "load e' (df e') = Inr (r, f) \<and> df_clean e' \<noteq> df e'"
proof -
  from assms(1) obtain r' lo hi c where
    r': "df_clean e = Some r'" and
    s: "store_column (e\<lparr>lower_limit := Some lo, upper_limit := Some hi\<rparr>) r'
          ''purchase_amount'' c = Inr e'"
    by (auto simp: problem5_def ebind_Inr_iff load_Inr_iff)
  let ?e0 = "e\<lparr>lower_limit := Some lo, upper_limit := Some hi\<rparr>"
  have "load ?e0 (df ?e0) = Inr (r, f)" using assms(2) by (simp add: load_Inr_iff)
  moreover have "df_clean ?e0 \<noteq> df ?e0" using assms(3) by simp
  moreover have "df_clean ?e0 = Some r'" using r' by simp
  ultimately show ?thesis using store_at_clean_frame[OF s] by blast
qed

lemma problem6_frame:
  assumes "problem6 e = Inr e'" and "load e (df e) = Inr (r, f)" and "df_clean e \<noteq> df e"
  shows "load e' (df e') = Inr (r, f) \<and> df_clean e' \<noteq> df e'"
proof -
  from assms(1) obtain r' lo hi c where
    r': "df_clean e = Some r'" and
    s: "store_column (e\<lparr>lower_limit_age := Some lo, upper_limit_age := Some hi\<rparr>) r'
          ''age'' c = Inr e'"
    by (auto simp: problem6_def ebind_Inr_iff load_Inr_iff)
  let ?e0 = "e\<lparr>lower_limit_age := Some lo, upper_limit_age := Some hi\<rparr>"
  have "load ?e0 (df ?e0) = Inr (r, f)" using assms(2) by (simp add: load_Inr_iff)
  moreover have "df_clean ?e0 \<noteq> df ?e0" using assms(3) by simp
  moreover have "df_clean ?e0 = Some r'" using r' by simp
  ultimately show ?thesis using store_at_clean_frame[OF s] by blast
qed

lemma problem3_frame:
  assumes "problem3 e = Inr e'" and "load e (df e) = Inr (r, f)" and "df_clean e \<noteq> df e"
  shows "load e' (df e') = Inr (r, f) \<and> df_clean e' \<noteq> df e'"
proof -
  from assms(1) obtain r' am c1 e1 cm c2 e2 pm c3 e3 sm c4 where
    r': "df_clean e = Some r'" and
    s1: "store_column (e\<lparr>age_mean := Some am\<rparr>) r' ''age'' c1 = Inr e1" and
    s2: "store_column (e1\<lparr>city_mode := Some cm\<rparr>) r' ''city'' c2 = Inr e2" and
    s3: "store_column (e2\<lparr>purchase_mean := Some pm\<rparr>) r' ''purchase_amount'' c3 = Inr e3" and
    s4: "store_column (e3\<lparr>size_mode := Some sm\<rparr>) r' ''shirt_size'' c4 = Inr e'"
    by (auto simp: problem3_def ebind_Inr_iff load_Inr_iff split: prod.splits)
  have 1: "load e1 (df e1) = Inr (r, f) \<and> df_clean e1 \<noteq> df e1 \<and> df_clean e1 = Some r'"
  proof -
    let ?e0 = "e\<lparr>age_mean := Some am\<rparr>"
    have "load ?e0 (df ?e0) = Inr (r, f)" using assms(2) by (simp add: load_Inr_iff)
    moreover have "df_clean ?e0 \<noteq> df ?e0" using assms(3) by simp
    moreover have "df_clean ?e0 = Some r'" using r' by simp
    ultimately show ?thesis using store_at_clean_frame[OF s1] by blast
  qed
  have 2: "load e2 (df e2) = Inr (r, f) \<and> df_clean e2 \<noteq> df e2 \<and> df_clean e2 = Some r'"
  proof -
    let ?e0 = "e1\<lparr>city_mode := Some cm\<rparr>"
    have "load ?e0 (df ?e0) = Inr (r, f)" using 1 by (simp add: load_Inr_iff)
    moreover have "df_clean ?e0 \<noteq> df ?e0" using 1 by auto
    moreover have "df_clean ?e0 = Some r'" using 1 by auto
    ultimately show ?thesis using store_at_clean_frame[OF s2] by blast
  qed
  have 3: "load e3 (df e3) = Inr (r, f) \<and> df_clean e3 \<noteq> df e3 \<and> df_clean e3 = Some r'"
  proof -
    let ?e0 = "e2\<lparr>purchase_mean := Some pm\<rparr>"
    have "load ?e0 (df ?e0) = Inr (r, f)" using 2 by (simp add: load_Inr_iff)
    moreover have "df_clean ?e0 \<noteq> df ?e0" using 2 by auto
    moreover have "df_clean ?e0 = Some r'" using 2 by auto
    ultimately show ?thesis using store_at_clean_frame[OF s3] by blast
  qed
  let ?e0 = "e3\<lparr>size_mode := Some sm\<rparr>"
  have "load ?e0 (df ?e0) = Inr (r, f)" using 3 by (simp add: load_Inr_iff)
  moreover have "df_clean ?e0 \<noteq> df ?e0" using 3 by auto
  moreover have "df_clean ?e0 = Some r'" using 3 by auto
  ultimately show ?thesis using store_at_clean_frame[OF s4] by blast
qed

lemma bonus_frame:
  assumes "bonus e = Inr e'" and "load e (df e) = Inr (r, f)" and "df_clean e \<noteq> df e"
  shows "load e' (df e') = Inr (r, f) \<and> df_clean e' \<noteq> df e'"
proof -
  from assms(1) obtain r' d c1 e3 c2 e4 c3 where
    r': "df_clean e = Some r'" and rl: "r' < length (heap e)" and
    s1: "store_column (e\<lparr>heap := heap e @ [d], city_encoded := Some (length (heap e))\<rparr>)
           r' ''size_encoded'' c1 = Inr e3" and
    s2: "store_column e3 r' ''grade_encoded'' c2 = Inr e4" and
    s3: "store_column e4 r' ''category_encoded'' c3 = Inr e'"
    by (auto simp: bonus_def ebind_Inr_iff load_Inr_iff alloc_def Let_def split: prod.splits)
  from assms(2) have d: "df e = Some r" and r: "r < length (heap e)" and f: "heap e ! r = f"
    by (simp_all add: load_Inr_iff)
  let ?e0 = "e\<lparr>heap := heap e @ [d], city_encoded := Some (length (heap e))\<rparr>"
  have "load ?e0 (df ?e0) = Inr (r, f)"
    using d r f by (simp add: load_Inr_iff nth_append)
  moreover have "df_clean ?e0 \<noteq> df ?e0" using assms(3) by simp
  moreover have "df_clean ?e0 = Some r'" using r' by simp
  ultimately have 1: "load e3 (df e3) = Inr (r, f) \<and> df_clean e3 \<noteq> df e3
      \<and> df_clean e3 = Some r'"
    using store_at_clean_frame[OF s1] by blast
  have 2: "load e4 (df e4) = Inr (r, f) \<and> df_clean e4 \<noteq> df e4 \<and> df_clean e4 = Some r'"
    using store_at_clean_frame[OF s2] 1 by blast
  show ?thesis
    using store_at_clean_frame[OF s3] 2 by blast
qed

lemma run_stages_frame:
  assumes "\<And>st e e'. st \<in> set sts \<Longrightarrow> st e = Inr e' \<Longrightarrow>
             load e (df e) = Inr (r, f) \<and> df_clean e \<noteq> df e \<Longrightarrow>
             load e' (df e') = Inr (r, f) \<and> df_clean e' \<noteq> df e'"
    and "run_stages sts e = Inr e'"
    and "load e (df e) = Inr (r, f) \<and> df_clean e \<noteq> df e"
  shows "load e' (df e') = Inr (r, f) \<and> df_clean e' \<noteq> df e'"
  using assms
proof (induction sts arbitrary: e)
  case Nil
  then show ?case by simp
next
  case (Cons st sts)
  from Cons.prems(2) obtain e1 where e1: "st e = Inr e1" and rest: "run_stages sts e1 = Inr e'"
    by (auto simp: ebind_Inr_iff)
  have inv: "load e1 (df e1) = Inr (r, f) \<and> df_clean e1 \<noteq> df e1"
    using Cons.prems(1)[of st e e1] e1 Cons.prems(3) by simp
  show ?case
  proof (rule Cons.IH[OF _ rest inv])
    fix st' e e'
    assume "st' \<in> set sts" "st' e = Inr e'"
      "load e (df e) = Inr (r, f) \<and> df_clean e \<noteq> df e"
    then show "load e' (df e') = Inr (r, f) \<and> df_clean e' \<noteq> df e'"
      using Cons.prems(1)[of st' e e'] by simp
  qed
qed

lemma later_stage_frame:
  assumes "st \<in> set [problem2, problem3, problem4, problem5, problem6, bonus]"
    and "st e = Inr e'" and "load e (df e) = Inr (r, f) \<and> df_clean e \<noteq> df e"
  shows "load e' (df e') = Inr (r, f) \<and> df_clean e' \<noteq> df e'"
  using assms problem2_frame[of e e' r f] problem3_frame[of e e' r f]
    problem4_frame[of e e' r f] problem5_frame[of e e' r f] problem6_frame[of e e' r f]
    bonus_frame[of e e' r f]
  by auto

text \<open>
  Claim C10. Problem 1 makes a new object for \<open>df_clean\<close>, and every later stage
  either makes another new object or assigns columns of the object \<open>df_clean\<close> refers
  to, which is never the object \<open>df\<close> refers to. So after any number of stages, run
  from any state in which \<open>df\<close> is bound and for any parser, \<open>df\<close> refers to the same
  object with the same contents. In the script it holds the 23 rows it was built with,
  when the table is built and when the script ends.
\<close>

theorem original_table_untouched:
  "(load e (df e) = Inr (r, f) \<and> run_stages (take k (stages parse)) e = Inr e'
      \<longrightarrow> load e' (df e') = Inr (r, f))
   \<and> original_table parse_decimal 0 = Inr df_built
   \<and> nrows df_built = 23
   \<and> original_table parse_decimal 7 = Inr df_built
   \<and> script parse_decimal = script_upto parse_decimal 7"
proof -
  have general: "load e' (df e') = Inr (r, f)"
    if ld: "load e (df e) = Inr (r, f)" and run: "run_stages (take k (stages parse)) e = Inr e'"
  proof (cases k)
    case 0
    then show ?thesis using ld run by simp
  next
    case (Suc j)
    have tk: "take k (stages parse)
        = problem1 parse # take j [problem2, problem3, problem4, problem5, problem6, bonus]"
      by (simp add: Suc stages_def cleaning_stages_def)
    from run obtain e1 where e1: "problem1 parse e = Inr e1"
      and rest: "run_stages (take j [problem2, problem3, problem4, problem5, problem6, bonus]) e1
                 = Inr e'"
      unfolding tk by (auto simp: ebind_Inr_iff)
    have inv: "load e1 (df e1) = Inr (r, f) \<and> df_clean e1 \<noteq> df e1"
      using problem1_frame[OF e1 ld] .
    have "load e' (df e') = Inr (r, f) \<and> df_clean e' \<noteq> df e'"
    proof (rule run_stages_frame[OF _ rest inv])
      fix st e e'
      assume "st \<in> set (take j [problem2, problem3, problem4, problem5, problem6, bonus])"
      then have "st \<in> set [problem2, problem3, problem4, problem5, problem6, bonus]"
        by (rule in_set_takeD)
      moreover assume "st e = Inr e'" "load e (df e) = Inr (r, f) \<and> df_clean e \<noteq> df e"
      ultimately show "load e' (df e') = Inr (r, f) \<and> df_clean e' \<noteq> df e'"
        by (rule later_stage_frame)
    qed
    then show ?thesis by simp
  qed
  have o0: "original_table parse_decimal 0 = Inr df_built"
    unfolding original_table_def script_upto_0
    by (simp add: state0_def deref_def load_def empty_env_def)
  have o7: "original_table parse_decimal 7 = Inr df_built"
    unfolding original_table_def script_upto_7
    by (simp add: state7_def deref_def load_def empty_env_def)
  have n: "nrows df_built = 23"
    by (simp add: df_built_def nrows_def)
  show ?thesis
    using general o0 o7 n script_is_upto_7[of parse_decimal] by blast
qed

theorem original_table_untouched_witness:
  "load state0 (df state0) = Inr (1, df_built)
   \<and> run_stages (take 7 (stages parse_decimal)) state0 = Inr state7
   \<and> load state7 (df state7) = Inr (1, df_built)
   \<and> heap state7 ! 1 = df_built \<and> df_clean state7 = Some 4"
proof -
  have ld: "load state0 (df state0) = Inr (1, df_built)"
    by (simp add: state0_def empty_env_def load_def)
  have run: "run_stages (take 7 (stages parse_decimal)) state0 = Inr state7"
    using script_upto_7 by (simp add: script_upto_def run_construct)
  have more: "heap state7 ! 1 = df_built \<and> df_clean state7 = Some 4"
    by (simp add: state7_def empty_env_def)
  from original_table_untouched[of state0 1 df_built 7 parse_decimal state7] ld run more
  show ?thesis by blast
qed

section \<open>Column pruning\<close>

lemma problem4_result:
  assumes ld: "load e (df_clean e) = Inr (r, f)"
    and cols: "list_all (\<lambda>n. n \<in> set (columns f)) columns_to_drop"
  shows "problem4 e
      = Inr (e\<lparr>heap := heap e @ [filter (\<lambda>(n, c). n \<notin> set columns_to_drop) f],
               df_clean := Some (length (heap e))\<rparr>)"
  using ld cols
  by (simp add: problem4_def deref_def drop_columns_def alloc_def)

lemma nunique_table_imputed:
  "map (\<lambda>(n, c). (n, nunique c)) table_imputed
   = [(''customer_id'', 20), (''name'', 17), (''age'', 15), (''city'', 6),
      (''purchase_amount'', 15), (''country'', 1), (''pan_card'', 20),
      (''product_category'', 3), (''shirt_size'', 4), (''grade'', 3)]"
  by (simp add: table_imputed_def unique_def dropna_def)

lemma nunique_table_pruned:
  "map (\<lambda>(n, c). (n, nunique c)) table_pruned
   = [(''customer_id'', 20), (''name'', 17), (''age'', 15), (''city'', 6),
      (''purchase_amount'', 15), (''product_category'', 3), (''shirt_size'', 4),
      (''grade'', 3)]"
  by (simp add: table_pruned_def unique_def dropna_def)

lemma nunique_table_encoded:
  "map (\<lambda>(n, c). (n, nunique c)) table_encoded
   = [(''customer_id'', 20), (''name'', 17), (''age'', 15), (''city'', 6),
      (''purchase_amount'', 14), (''product_category'', 3), (''shirt_size'', 4),
      (''grade'', 3), (''size_encoded'', 4), (''grade_encoded'', 3),
      (''category_encoded'', 3)]"
  by (simp add: table_encoded_def unique_def dropna_def)

lemma nrows_tables:
  "nrows table_imputed = 20" "nrows table_pruned = 20" "nrows table_encoded = 20"
  by (simp_all add: table_imputed_def table_pruned_def table_encoded_def nrows_def)

lemma list_all_map_snd:
  "list_all (\<lambda>(n, c). P n (nunique c)) f = list_all (\<lambda>(n, k). P n k) (map (\<lambda>(n, c). (n, nunique c)) f)"
  by (induction f) auto

text \<open>
  Claim C2, as stated, fails: the column customer_id is in the working table after the
  pruning stage and in the final table, and its 20 values are all distinct in 20 rows.
\<close>

theorem pruning_rule_counterexample:
  "working_table parse_decimal 4 = Inr table_pruned
   \<and> working_table parse_decimal 7 = Inr table_encoded
   \<and> nrows table_pruned = 20 \<and> nrows table_encoded = 20
   \<and> ebind (getitem table_pruned ''customer_id'') (\<lambda>c. Inr (nunique c)) = Inr 20
   \<and> ebind (getitem table_encoded ''customer_id'') (\<lambda>c. Inr (nunique c)) = Inr 20
   \<and> \<not> list_all (\<lambda>(n, c). keeps_rule table_pruned c) table_pruned
   \<and> \<not> list_all (\<lambda>(n, c). keeps_rule table_encoded c) table_encoded"
proof -
  have a: "ebind (getitem table_pruned ''customer_id'') (\<lambda>c. Inr (nunique c)) = Inr 20"
    by (simp add: table_pruned_def getitem_def unique_def)
  have b: "ebind (getitem table_encoded ''customer_id'') (\<lambda>c. Inr (nunique c)) = Inr 20"
    by (simp add: table_encoded_def getitem_def unique_def)
  have c: "\<not> list_all (\<lambda>(n, c). keeps_rule table_pruned c) table_pruned"
    unfolding keeps_rule_def nrows_tables
      list_all_map_snd[of "\<lambda>n k. 1 < k \<and> k < 20"] nunique_table_pruned
    by simp
  have d: "\<not> list_all (\<lambda>(n, c). keeps_rule table_encoded c) table_encoded"
    unfolding keeps_rule_def nrows_tables
      list_all_map_snd[of "\<lambda>n k. 1 < k \<and> k < 20"] nunique_table_encoded
    by simp
  show ?thesis
    using working_table_4 working_table_7 nrows_tables(2,3) a b c d by blast
qed

text \<open>
  Claim C2, amended. Problem 4 removes exactly the two columns it names, country and
  pan_card, and keeps every other column as it is. When it runs in the script, country
  has one distinct value and pan_card has 20 distinct values in 20 rows. In the table
  it leaves, and in the final table, every column other than customer_id has more than
  one distinct value and fewer distinct values than rows.
\<close>

theorem column_pruning:
  "(load e (df_clean e) = Inr (r, f) \<and> list_all (\<lambda>n. n \<in> set (columns f)) columns_to_drop
      \<longrightarrow> (\<exists>e'. problem4 e = Inr e'
            \<and> deref e' (df_clean e')
                = Inr (filter (\<lambda>(n, c). n \<noteq> ''country'' \<and> n \<noteq> ''pan_card'') f)))
   \<and> working_table parse_decimal 3 = Inr table_imputed
   \<and> nrows table_imputed = 20
   \<and> ebind (getitem table_imputed ''country'') (\<lambda>c. Inr (nunique c)) = Inr 1
   \<and> ebind (getitem table_imputed ''pan_card'') (\<lambda>c. Inr (nunique c)) = Inr 20
   \<and> working_table parse_decimal 4 = Inr table_pruned
   \<and> columns table_pruned
       = [''customer_id'', ''name'', ''age'', ''city'', ''purchase_amount'', ''product_category'',
          ''shirt_size'', ''grade'']
   \<and> list_all (\<lambda>(n, c). n = ''customer_id'' \<or> keeps_rule table_pruned c) table_pruned
   \<and> working_table parse_decimal 7 = Inr table_encoded
   \<and> nrows table_encoded = 20
   \<and> list_all (\<lambda>(n, c). n = ''customer_id'' \<or> keeps_rule table_encoded c) table_encoded"
proof -
  have general: "\<exists>e'. problem4 e = Inr e'
            \<and> deref e' (df_clean e')
                = Inr (filter (\<lambda>(n, c). n \<noteq> ''country'' \<and> n \<noteq> ''pan_card'') f)"
    if ld: "load e (df_clean e) = Inr (r, f)"
      and cols: "list_all (\<lambda>n. n \<in> set (columns f)) columns_to_drop"
    unfolding problem4_result[OF ld cols]
    by (simp add: deref_def load_def columns_to_drop_def)
  have a: "ebind (getitem table_imputed ''country'') (\<lambda>c. Inr (nunique c)) = Inr 1"
    by (simp add: table_imputed_def getitem_def unique_def dropna_def)
  have b: "ebind (getitem table_imputed ''pan_card'') (\<lambda>c. Inr (nunique c)) = Inr 20"
    by (simp add: table_imputed_def getitem_def unique_def dropna_def)
  have c: "columns table_pruned
       = [''customer_id'', ''name'', ''age'', ''city'', ''purchase_amount'', ''product_category'',
          ''shirt_size'', ''grade'']"
    by (simp add: table_pruned_def columns_def)
  have d: "list_all (\<lambda>(n, c). n = ''customer_id'' \<or> keeps_rule table_pruned c) table_pruned"
    unfolding keeps_rule_def nrows_tables
      list_all_map_snd[of "\<lambda>n k. n = ''customer_id'' \<or> 1 < k \<and> k < 20"] nunique_table_pruned
    by simp
  have e: "list_all (\<lambda>(n, c). n = ''customer_id'' \<or> keeps_rule table_encoded c) table_encoded"
    unfolding keeps_rule_def nrows_tables
      list_all_map_snd[of "\<lambda>n k. n = ''customer_id'' \<or> 1 < k \<and> k < 20"] nunique_table_encoded
    by simp
  show ?thesis
    using general working_table_3 working_table_4 working_table_7 nrows_tables(1,3) a b c d e
    by blast
qed

theorem column_pruning_witness:
  "\<exists>e'. problem4 state3 = Inr e'
     \<and> deref e' (df_clean e')
         = Inr (filter (\<lambda>(n, c). n \<noteq> ''country'' \<and> n \<noteq> ''pan_card'') table_imputed)
     \<and> filter (\<lambda>(n, c). n \<noteq> ''country'' \<and> n \<noteq> ''pan_card'') table_imputed = table_pruned"
proof -
  have ld: "load state3 (df_clean state3) = Inr (3, table_imputed)"
    by (simp add: state3_def empty_env_def load_def)
  have cols: "list_all (\<lambda>n. n \<in> set (columns table_imputed)) columns_to_drop"
    by (simp add: columns_to_drop_def table_imputed_def columns_def)
  have eq: "filter (\<lambda>(n, c). n \<noteq> ''country'' \<and> n \<noteq> ''pan_card'') table_imputed = table_pruned"
    by (simp add: table_imputed_def table_pruned_def)
  from column_pruning[of state3 3 table_imputed] ld cols eq
  show ?thesis by blast
qed

section \<open>Categorical encodings\<close>

subsection \<open>Positions in a list of categories\<close>




















subsection \<open>The encoding stage\<close>








end
